theory Spec2Isabelle
  imports Complex_Main
begin

section \<open>The face guide of src/FaceFrame.jsx\<close>

text \<open>
  The component \<open>FaceFrameGuide\<close> keeps eight mutable cells (React refs) and, for every
  video frame, runs the function \<open>detect\<close>, which reads the detector's predictions,
  updates the cells and calls up to four callbacks of the host.

  Modelling decisions:
  \<^item> JavaScript numbers that hold coordinates, ratios and distances are IEEE doubles, with
    rounding, infinities and NaN. Their type is a type variable \<open>'n\<close>, and every built-in
    the code applies to them (a numeric literal, \<open>+\<close>, \<open>-\<close>, \<open>*\<close>, \<open>/\<close>, \<open>**\<close>, \<open><\<close>, \<open><=\<close>,
    \<open>Math.min\<close>, \<open>Math.max\<close>, \<open>Math.hypot\<close>) is a field of a record \<open>ar\<close> that each function
    takes: nothing is assumed of these operations, so what is proved holds of the
    arithmetic of doubles as of any other.
  \<^item> The streak counters start at 0 and only ever are reset to 0 or incremented by 1;
    they are \<open>nat\<close> (a double counts exactly up to \<open>2 ^ 53\<close> frames).
  \<^item> \<open>minFramesIn\<close> and \<open>minFramesOut\<close> are \<open>int\<close>, as the configuration declares them.
  \<^item> A ref holding \<open>null\<close> or a value is an \<open>option\<close>.
  \<^item> A callback invocation is an event in the list that \<open>detect\<close> returns, in the
    order of the calls. The callbacks are optional properties (\<open>cb?.(v)\<close>): an event
    stands for the call the code makes when the host supplied the callback.
  \<^item> Reading \<open>.x\<close> of \<open>keypoints[33]\<close> or \<open>keypoints[263]\<close> when the index is out of
    range throws a TypeError before any cell is written: \<open>detect\<close> returns \<open>Inl TypeError\<close>.
  \<^item> Everything \<open>detect\<close> does after \<open>await estimateFaces\<close> is synchronous, so one
    call is one atomic transition of the cells; the value of \<open>captureAllowed\<close> read
    before the \<open>await\<close> (line 154) is overwritten on every path and is not modelled.
\<close>

subsection \<open>Numbers\<close>

text \<open>
  The built-ins on numbers that the code uses:
  \<^item> \<open>numLit r\<close>: the number that a numeric literal of value \<open>r\<close> denotes (\<open>0.85\<close>, \<open>2\<close>), and
    the number that holds an integer \<open>r\<close> (a canvas width, a count);
  \<^item> \<open>numAdd\<close>, \<open>numSub\<close>, \<open>numMul\<close>, \<open>numDiv\<close>: \<open>+\<close>, \<open>-\<close>, \<open>*\<close>, \<open>/\<close>;
  \<^item> \<open>numPow a n\<close>: \<open>a ** n\<close> for a literal exponent \<open>n\<close>;
  \<^item> \<open>numLess a b\<close>: \<open>a < b\<close>, and \<open>b > a\<close>, which JavaScript evaluates as the same
    comparison; \<open>numLessEq a b\<close>: \<open>a <= b\<close>, and \<open>b >= a\<close> likewise;
  \<^item> \<open>mathMin\<close>, \<open>mathMax\<close>: \<open>Math.min\<close> and \<open>Math.max\<close> of the listed arguments;
  \<^item> \<open>mathHypot\<close>: \<open>Math.hypot\<close> of two arguments.
\<close>

record 'n arith =
  numLit :: "real \<Rightarrow> 'n"
  numAdd :: "'n \<Rightarrow> 'n \<Rightarrow> 'n"
  numSub :: "'n \<Rightarrow> 'n \<Rightarrow> 'n"
  numMul :: "'n \<Rightarrow> 'n \<Rightarrow> 'n"
  numDiv :: "'n \<Rightarrow> 'n \<Rightarrow> 'n"
  numPow :: "'n \<Rightarrow> nat \<Rightarrow> 'n"
  numLess :: "'n \<Rightarrow> 'n \<Rightarrow> bool"
  numLessEq :: "'n \<Rightarrow> 'n \<Rightarrow> bool"
  mathMin :: "'n list \<Rightarrow> 'n"
  mathMax :: "'n list \<Rightarrow> 'n"
  mathHypot :: "'n \<Rightarrow> 'n \<Rightarrow> 'n"

subsection \<open>Data\<close>

text \<open>A keypoint \<open>{x, y}\<close>; the fields are named \<open>px\<close> and \<open>py\<close> here.\<close>

record 'n keypoint =
  px :: 'n
  py :: 'n

text \<open>One element of \<open>predictions\<close>: \<open>face.keypoints\<close> and the optional
  \<open>face.faceInViewConfidence\<close>.\<close>

record 'n face =
  keypoints :: "'n keypoint list"
  faceInViewConfidence :: "'n option"

text \<open>The strings \<open>"ok"\<close>, \<open>"tooFar"\<close> and \<open>"tooClose"\<close>.\<close>

datatype distance_status = Ok | TooFar | TooClose

text \<open>The properties of the component (lines 13 to 19), with their defaults below.\<close>

record 'n config =
  minFramesIn :: int
  minFramesOut :: int
  boxInsideRequired :: bool
  percentInsideRequired :: 'n
  ellipseMargin :: 'n
  minEyeRatio :: 'n
  maxEyeRatio :: 'n

definition defaultConfig :: "'n arith \<Rightarrow> 'n config" where
  "defaultConfig ar = \<lparr> minFramesIn = 6, minFramesOut = 3, boxInsideRequired = True,
     percentInsideRequired = numLit ar 0.95, ellipseMargin = numLit ar 1.0,
     minEyeRatio = numLit ar 0.08, maxEyeRatio = numLit ar 0.18 \<rparr>"

text \<open>The refs of lines 26 to 39.\<close>

record 'n state =
  lastGoodVisual :: bool
  lastDistanceStatus :: "distance_status option"
  lastCaptureAllowed :: bool
  goodStreak :: nat
  badStreak :: nat
  baselineEyePx :: "'n option"
  calibratingStreak :: nat
  lostStreak :: nat

definition initialState :: "'n state" where
  "initialState = \<lparr> lastGoodVisual = False, lastDistanceStatus = None,
     lastCaptureAllowed = False, goodStreak = 0, badStreak = 0, baselineEyePx = None,
     calibratingStreak = 0, lostStreak = 0 \<rparr>"

definition CALIBRATE_MIN_STREAK :: nat where
  "CALIBRATE_MIN_STREAK = 8"

definition FAR_FACTOR :: "'n arith \<Rightarrow> 'n" where
  "FAR_FACTOR ar = numLit ar 0.85"

definition CLOSE_FACTOR :: "'n arith \<Rightarrow> 'n" where
  "CLOSE_FACTOR ar = numLit ar 1.2"

definition LOST_RESET_STREAK :: nat where
  "LOST_RESET_STREAK = 12"

text \<open>The calls \<open>onFaceDistanceChange\<close>, \<open>onKeypointsDetected\<close>,
  \<open>onCaptureAllowedChange\<close> and \<open>onFaceStatusChange\<close>; \<open>onKeypointsDetected(null)\<close> is
  \<open>KeypointsDetected None\<close>.\<close>

datatype 'n event =
  FaceDistanceChange distance_status
| KeypointsDetected "'n keypoint list option"
| CaptureAllowedChange bool
| FaceStatusChange bool

datatype error = TypeError

text \<open>What one call of \<open>detect\<close> is given: whether the detector, the video element, the
  canvas and its 2d context are all there (lines 120 and 142), the size of the video, and
  the result of \<open>estimateFaces\<close>.\<close>

record 'n frame =
  ready :: bool
  videoWidth :: nat
  videoHeight :: nat
  predictions :: "'n face list"

subsection \<open>Geometry helpers (lines 78 to 116)\<close>

text \<open>\<open>(x - cx) ** 2 / rx ** 2 + (y - cy) ** 2 / ry ** 2 <= 1\<close>; \<open>**\<close> binds tighter than
  \<open>/\<close>, and \<open>/\<close> tighter than \<open>+\<close>.\<close>

definition isInsideEllipse :: "'n arith \<Rightarrow> 'n \<Rightarrow> 'n \<Rightarrow> 'n \<Rightarrow> 'n \<Rightarrow> 'n \<Rightarrow> 'n \<Rightarrow> bool" where
  "isInsideEllipse ar x y cx cy rx ry \<longleftrightarrow>
     numLessEq ar
       (numAdd ar
          (numDiv ar (numPow ar (numSub ar x cx) 2) (numPow ar rx 2))
          (numDiv ar (numPow ar (numSub ar y cy) 2) (numPow ar ry 2)))
       (numLit ar 1)"

record 'n box =
  minX :: 'n
  maxX :: 'n
  minY :: 'n
  maxY :: 'n

text \<open>\<open>Math.min(...xs)\<close> and \<open>Math.max(...xs)\<close> of the coordinates.\<close>

definition getBoundingBox :: "'n arith \<Rightarrow> 'n keypoint list \<Rightarrow> 'n box" where
  "getBoundingBox ar kps =
     (let xs = map px kps; ys = map py kps in
      \<lparr> minX = mathMin ar xs, maxX = mathMax ar xs, minY = mathMin ar ys, maxY = mathMax ar ys \<rparr>)"

text \<open>\<open>corners.every(...)\<close>.\<close>

definition isBoundingBoxInsideEllipse ::
  "'n arith \<Rightarrow> 'n keypoint list \<Rightarrow> 'n \<Rightarrow> 'n \<Rightarrow> 'n \<Rightarrow> 'n \<Rightarrow> bool" where
  "isBoundingBoxInsideEllipse ar kps cx cy rx ry =
     (let b = getBoundingBox ar kps;
          corners = [(minX b, minY b), (maxX b, minY b), (minX b, maxY b), (maxX b, maxY b)]
      in list_all (\<lambda>(x, y). isInsideEllipse ar x y cx cy rx ry) corners)"

text \<open>The loop of lines 105 to 108, with the counter \<open>inside\<close> as accumulator; the counter
  holds an integer, below \<open>2 ^ 53\<close> for any list that fits in memory.\<close>

fun countInside :: "'n arith \<Rightarrow> 'n keypoint list \<Rightarrow> 'n \<Rightarrow> 'n \<Rightarrow> 'n \<Rightarrow> 'n \<Rightarrow> nat \<Rightarrow> nat" where
  "countInside ar [] cx cy rx ry inside = inside"
| "countInside ar (p # ps) cx cy rx ry inside =
     countInside ar ps cx cy rx ry
       (if isInsideEllipse ar (px p) (py p) cx cy rx ry then inside + 1 else inside)"

text \<open>\<open>inside / keypoints.length\<close>.\<close>

definition fractionInsideEllipse ::
  "'n arith \<Rightarrow> 'n keypoint list \<Rightarrow> 'n \<Rightarrow> 'n \<Rightarrow> 'n \<Rightarrow> 'n \<Rightarrow> 'n" where
  "fractionInsideEllipse ar kps cx cy rx ry =
     numDiv ar (numLit ar (real (countInside ar kps cx cy rx ry 0)))
       (numLit ar (real (length kps)))"

text \<open>\<open>Math.hypot(dx, dy)\<close> of the two differences.\<close>

definition getDistance :: "'n arith \<Rightarrow> 'n keypoint \<Rightarrow> 'n keypoint \<Rightarrow> 'n" where
  "getDistance ar p1 p2 =
     (let dx = numSub ar (px p1) (px p2); dy = numSub ar (py p1) (py p2)
      in mathHypot ar dx dy)"

subsection \<open>The body of \<open>detect\<close> (lines 148 to 272)\<close>

text \<open>The ellipse of lines 148 to 151, from the canvas size and \<open>ellipseMargin\<close>.\<close>

definition centerX :: "'n arith \<Rightarrow> 'n \<Rightarrow> 'n" where
  "centerX ar w = numDiv ar w (numLit ar 2)"

definition centerY :: "'n arith \<Rightarrow> 'n \<Rightarrow> 'n" where
  "centerY ar h = numDiv ar h (numLit ar 2.5)"

definition radiusX :: "'n arith \<Rightarrow> 'n config \<Rightarrow> 'n \<Rightarrow> 'n" where
  "radiusX ar cfg w = numMul ar (numMul ar w (numLit ar 0.3)) (ellipseMargin cfg)"

definition radiusY :: "'n arith \<Rightarrow> 'n config \<Rightarrow> 'n \<Rightarrow> 'n" where
  "radiusY ar cfg h = numMul ar (numMul ar h (numLit ar 0.31)) (ellipseMargin cfg)"

text \<open>Lines 163 to 168.\<close>

definition eyeDistanceOf :: "'n arith \<Rightarrow> 'n face \<Rightarrow> 'n" where
  "eyeDistanceOf ar fc = getDistance ar (keypoints fc ! 33) (keypoints fc ! 263)"

definition relativeEyeDistanceOf :: "'n arith \<Rightarrow> 'n config \<Rightarrow> 'n \<Rightarrow> 'n \<Rightarrow> 'n face \<Rightarrow> 'n" where
  "relativeEyeDistanceOf ar cfg w h fc =
     (let denom = numMul ar (numLit ar 2) (mathMin ar [radiusX ar cfg w, radiusY ar cfg h])
      in numDiv ar (eyeDistanceOf ar fc) (mathMax ar [denom, numLit ar 1]))"

text \<open>Lines 170 to 190: \<open>boxOk\<close>, \<open>fracOk\<close> and \<open>confidenceOk\<close>. \<open>== null\<close> holds of \<open>null\<close>
  and of \<open>undefined\<close>.\<close>

definition boxOk :: "'n arith \<Rightarrow> 'n config \<Rightarrow> 'n \<Rightarrow> 'n \<Rightarrow> 'n face \<Rightarrow> bool" where
  "boxOk ar cfg w h fc =
     (if \<not> boxInsideRequired cfg then True
      else isBoundingBoxInsideEllipse ar (keypoints fc)
             (centerX ar w) (centerY ar h) (radiusX ar cfg w) (radiusY ar cfg h))"

definition fracOk :: "'n arith \<Rightarrow> 'n config \<Rightarrow> 'n \<Rightarrow> 'n \<Rightarrow> 'n face \<Rightarrow> bool" where
  "fracOk ar cfg w h fc =
     numLessEq ar (percentInsideRequired cfg)
       (fractionInsideEllipse ar (keypoints fc)
          (centerX ar w) (centerY ar h) (radiusX ar cfg w) (radiusY ar cfg h))"

definition confidenceOk :: "'n arith \<Rightarrow> 'n face \<Rightarrow> bool" where
  "confidenceOk ar fc =
     (case faceInViewConfidence fc of
        None \<Rightarrow> True
      | Some c \<Rightarrow> numLess ar (numLit ar 0.95) c)"

text \<open>The condition \<open>boxOk && fracOk && confidenceOk\<close> of lines 192 and 229.\<close>

definition geometryOk :: "'n arith \<Rightarrow> 'n config \<Rightarrow> 'n \<Rightarrow> 'n \<Rightarrow> 'n face \<Rightarrow> bool" where
  "geometryOk ar cfg w h fc \<longleftrightarrow>
     boxOk ar cfg w h fc \<and> fracOk ar cfg w h fc \<and> confidenceOk ar fc"

text \<open>Lines 192 to 203: the calibration counters and the one-shot baseline.\<close>

definition calibrate :: "'n state \<Rightarrow> bool \<Rightarrow> 'n \<Rightarrow> 'n state" where
  "calibrate st gOk eyeDistance =
     (if gOk then
        (let st1 = st\<lparr> calibratingStreak := calibratingStreak st + 1, lostStreak := 0 \<rparr> in
         if baselineEyePx st1 = None \<and> calibratingStreak st1 \<ge> CALIBRATE_MIN_STREAK
         then st1\<lparr> baselineEyePx := Some eyeDistance \<rparr>
         else st1)
      else st\<lparr> calibratingStreak := 0 \<rparr>)"

text \<open>Lines 205 to 215.\<close>

definition classifyDistance ::
  "'n arith \<Rightarrow> 'n config \<Rightarrow> 'n option \<Rightarrow> 'n \<Rightarrow> 'n \<Rightarrow> distance_status" where
  "classifyDistance ar cfg baseline eyeDistance relativeEyeDistance =
     (case baseline of
        Some b \<Rightarrow>
          if numLess ar eyeDistance (numMul ar b (FAR_FACTOR ar)) then TooFar
          else if numLess ar (numMul ar b (CLOSE_FACTOR ar)) eyeDistance then TooClose
          else Ok
      | None \<Rightarrow>
          if numLess ar relativeEyeDistance (minEyeRatio cfg) then TooFar
          else if numLess ar (maxEyeRatio cfg) relativeEyeDistance then TooClose
          else Ok)"

text \<open>Lines 217 to 220, and lines 254 to 257 with \<open>TooFar\<close>.\<close>

definition reportDistance :: "'n state \<Rightarrow> distance_status \<Rightarrow> 'n state \<times> 'n event list" where
  "reportDistance st distanceStatus =
     (if Some distanceStatus \<noteq> lastDistanceStatus st
      then (st\<lparr> lastDistanceStatus := Some distanceStatus \<rparr>, [FaceDistanceChange distanceStatus])
      else (st, []))"

text \<open>Lines 265 to 272.\<close>

definition reportSignals :: "'n state \<Rightarrow> bool \<Rightarrow> bool \<Rightarrow> 'n state \<times> 'n event list" where
  "reportSignals st captureAllowed isGoodNow =
     (let (st1, evs1) =
            (if captureAllowed \<noteq> lastCaptureAllowed st
             then (st\<lparr> lastCaptureAllowed := captureAllowed \<rparr>,
                   [CaptureAllowedChange captureAllowed])
             else (st, []));
          (st2, evs2) =
            (if isGoodNow \<noteq> lastGoodVisual st1
             then (st1\<lparr> lastGoodVisual := isGoodNow \<rparr>, [FaceStatusChange isGoodNow])
             else (st1, []))
      in (st2, evs1 @ evs2))"

text \<open>Lines 159 to 247, for a face whose two eye keypoints exist.\<close>

definition faceBranch ::
  "'n arith \<Rightarrow> 'n config \<Rightarrow> 'n state \<Rightarrow> 'n \<Rightarrow> 'n \<Rightarrow> 'n face \<Rightarrow> 'n state \<times> 'n event list" where
  "faceBranch ar cfg st w h fc =
     (let eyeDistance = eyeDistanceOf ar fc;
          relativeEyeDistance = relativeEyeDistanceOf ar cfg w h fc;
          gOk = geometryOk ar cfg w h fc;
          st1 = calibrate st gOk eyeDistance;
          distanceStatus =
            classifyDistance ar cfg (baselineEyePx st1) eyeDistance relativeEyeDistance;
          (st2, evs2) = reportDistance st1 distanceStatus;
          kev = [KeypointsDetected (Some (keypoints fc))]
      in if distanceStatus \<noteq> Ok then
           (let st3 = st2\<lparr> goodStreak := 0, badStreak := badStreak st2 + 1 \<rparr>;
                (st4, evs4) = reportSignals st3 False False
            in (st4, evs2 @ kev @ evs4))
         else
           (let isGoodNow = gOk;
                st3 = (if isGoodNow
                       then st2\<lparr> goodStreak := goodStreak st2 + 1, badStreak := 0 \<rparr>
                       else st2\<lparr> badStreak := badStreak st2 + 1, goodStreak := 0 \<rparr>);
                captureAllowed =
                  (if int (goodStreak st3) \<ge> minFramesIn cfg then True
                   else if int (badStreak st3) \<ge> minFramesOut cfg then False
                   else lastCaptureAllowed st3);
                (st4, evs4) = reportSignals st3 captureAllowed isGoodNow
            in (st4, evs2 @ kev @ evs4)))"

text \<open>Lines 249 to 262, and then lines 265 to 272.\<close>

definition noFaceBranch :: "'n state \<Rightarrow> 'n state \<times> 'n event list" where
  "noFaceBranch st =
     (let st1 = st\<lparr> lostStreak := lostStreak st + 1 \<rparr>;
          st2 = (if lostStreak st1 \<ge> LOST_RESET_STREAK
                 then st1\<lparr> baselineEyePx := None, calibratingStreak := 0 \<rparr>
                 else st1);
          (st3, evs3) = reportDistance st2 TooFar;
          kev = [KeypointsDetected None];
          st4 = st3\<lparr> goodStreak := 0, badStreak := badStreak st3 + 1 \<rparr>;
          (st5, evs5) = reportSignals st4 False False
      in (st5, evs3 @ kev @ evs5))"

text \<open>Lines 148 to 272 on a canvas of the given size. \<open>predictions[0]\<close> is the only face
  looked at; with fewer than 264 keypoints, line 165 throws.\<close>

definition processFrame ::
  "'n arith \<Rightarrow> 'n config \<Rightarrow> 'n state \<Rightarrow> 'n \<Rightarrow> 'n \<Rightarrow> 'n face list \<Rightarrow>
   error + 'n state \<times> 'n event list" where
  "processFrame ar cfg st w h preds =
     (case preds of
        fc # _ \<Rightarrow>
          if length (keypoints fc) \<le> 263 then Inl TypeError
          else Inr (faceBranch ar cfg st w h fc)
      | [] \<Rightarrow> Inr (noFaceBranch st))"

text \<open>A frame is processed when it passes the guards of lines 120 to 145.\<close>

definition processed :: "'n frame \<Rightarrow> bool" where
  "processed fr \<longleftrightarrow> ready fr \<and> videoWidth fr \<noteq> 0 \<and> videoHeight fr \<noteq> 0"

text \<open>The numbers \<open>canvas.width\<close> and \<open>canvas.height\<close>: the canvas takes the size of the
  video (lines 133 to 139).\<close>

definition canvasWidth :: "'n arith \<Rightarrow> 'n frame \<Rightarrow> 'n" where
  "canvasWidth ar fr = numLit ar (real (videoWidth fr))"

definition canvasHeight :: "'n arith \<Rightarrow> 'n frame \<Rightarrow> 'n" where
  "canvasHeight ar fr = numLit ar (real (videoHeight fr))"

text \<open>\<open>detect\<close>: a frame that is not processed returns early, with no cell written and no
  callback called.\<close>

definition detect ::
  "'n arith \<Rightarrow> 'n config \<Rightarrow> 'n state \<Rightarrow> 'n frame \<Rightarrow> error + 'n state \<times> 'n event list" where
  "detect ar cfg st fr =
     (if \<not> ready fr then Inr (st, [])
      else if videoWidth fr = 0 \<or> videoHeight fr = 0 then Inr (st, [])
      else processFrame ar cfg st (canvasWidth ar fr) (canvasHeight ar fr) (predictions fr))"

text \<open>A sequence of frames given to \<open>detect\<close> one after the other, with all the calls
  made; an exception ends it.\<close>

fun run ::
  "'n arith \<Rightarrow> 'n config \<Rightarrow> 'n state \<Rightarrow> 'n frame list \<Rightarrow> error + 'n state \<times> 'n event list" where
  "run ar cfg st [] = Inr (st, [])"
| "run ar cfg st (fr # frs) =
     (case detect ar cfg st fr of
        Inl e \<Rightarrow> Inl e
      | Inr (st1, evs1) \<Rightarrow>
          (case run ar cfg st1 frs of
             Inl e \<Rightarrow> Inl e
           | Inr (st2, evs2) \<Rightarrow> Inr (st2, evs1 @ evs2)))"

subsection \<open>Names for what a frame computes\<close>

text \<open>The value of the local \<open>distanceStatus\<close> at line 217, for a face seen in state
  \<open>st\<close>: the classification reads the baseline after the calibration of the same frame.\<close>

definition distanceStatusOf ::
  "'n arith \<Rightarrow> 'n config \<Rightarrow> 'n state \<Rightarrow> 'n \<Rightarrow> 'n \<Rightarrow> 'n face \<Rightarrow> distance_status" where
  "distanceStatusOf ar cfg st w h fc =
     classifyDistance ar cfg
       (baselineEyePx (calibrate st (geometryOk ar cfg w h fc) (eyeDistanceOf ar fc)))
       (eyeDistanceOf ar fc) (relativeEyeDistanceOf ar cfg w h fc)"

text \<open>A processed frame with a face for which \<open>boxOk && fracOk && confidenceOk\<close> holds.\<close>

definition frameGeometryOk :: "'n arith \<Rightarrow> 'n config \<Rightarrow> 'n frame \<Rightarrow> bool" where
  "frameGeometryOk ar cfg fr \<longleftrightarrow>
     processed fr \<and>
     (case predictions fr of
        [] \<Rightarrow> False
      | fc # _ \<Rightarrow> geometryOk ar cfg (canvasWidth ar fr) (canvasHeight ar fr) fc)"

text \<open>The argument of \<open>onKeypointsDetected\<close> for a frame.\<close>

definition keypointsOf :: "'n frame \<Rightarrow> 'n keypoint list option" where
  "keypointsOf fr = (case predictions fr of [] \<Rightarrow> None | fc # _ \<Rightarrow> Some (keypoints fc))"

text \<open>The values passed to \<open>onFaceStatusChange\<close>, to \<open>onCaptureAllowedChange\<close> and to
  \<open>onFaceDistanceChange\<close> in a list of calls, in order.\<close>

fun faceStatusValues :: "'n event list \<Rightarrow> bool list" where
  "faceStatusValues [] = []"
| "faceStatusValues (FaceStatusChange v # evs) = v # faceStatusValues evs"
| "faceStatusValues (_ # evs) = faceStatusValues evs"

fun captureAllowedValues :: "'n event list \<Rightarrow> bool list" where
  "captureAllowedValues [] = []"
| "captureAllowedValues (CaptureAllowedChange v # evs) = v # captureAllowedValues evs"
| "captureAllowedValues (_ # evs) = captureAllowedValues evs"

fun distanceStatusValues :: "'n event list \<Rightarrow> distance_status list" where
  "distanceStatusValues [] = []"
| "distanceStatusValues (FaceDistanceChange d # evs) = d # distanceStatusValues evs"
| "distanceStatusValues (_ # evs) = distanceStatusValues evs"

text \<open>The calls that report a change of the cells from \<open>st\<close> to \<open>st'\<close> on a frame: one
  call for each signal whose cell changed, with the new value, and the keypoints call, in
  the order of the code.\<close>

definition callsFor :: "'n state \<Rightarrow> 'n state \<Rightarrow> 'n frame \<Rightarrow> 'n event list" where
  "callsFor st st' fr =
     (case lastDistanceStatus st' of
        None \<Rightarrow> []
      | Some d \<Rightarrow> if lastDistanceStatus st \<noteq> Some d then [FaceDistanceChange d] else []) @
     [KeypointsDetected (keypointsOf fr)] @
     (if lastCaptureAllowed st' \<noteq> lastCaptureAllowed st
      then [CaptureAllowedChange (lastCaptureAllowed st')] else []) @
     (if lastGoodVisual st' \<noteq> lastGoodVisual st
      then [FaceStatusChange (lastGoodVisual st')] else [])"

subsection \<open>The geometry and the distances as the specification words them\<close>

text \<open>The target region of a frame: \<open>cx = width / 2\<close>, \<open>cy = height / 2.5\<close>,
  \<open>rx = width * 0.3 * margin\<close>, \<open>ry = height * 0.31 * margin\<close>, on the numbers of the
  code.\<close>

definition cxSpec :: "'n arith \<Rightarrow> 'n frame \<Rightarrow> 'n" where
  "cxSpec ar fr = numDiv ar (numLit ar (real (videoWidth fr))) (numLit ar 2)"

definition cySpec :: "'n arith \<Rightarrow> 'n frame \<Rightarrow> 'n" where
  "cySpec ar fr = numDiv ar (numLit ar (real (videoHeight fr))) (numLit ar 2.5)"

definition rxSpec :: "'n arith \<Rightarrow> 'n config \<Rightarrow> 'n frame \<Rightarrow> 'n" where
  "rxSpec ar cfg fr =
     numMul ar (numMul ar (numLit ar (real (videoWidth fr))) (numLit ar 0.3)) (ellipseMargin cfg)"

definition rySpec :: "'n arith \<Rightarrow> 'n config \<Rightarrow> 'n frame \<Rightarrow> 'n" where
  "rySpec ar cfg fr =
     numMul ar (numMul ar (numLit ar (real (videoHeight fr))) (numLit ar 0.31)) (ellipseMargin cfg)"

text \<open>A point is inside the ellipse iff \<open>(x - cx)\<^sup>2 / rx\<^sup>2 + (y - cy)\<^sup>2 / ry\<^sup>2 \<le> 1\<close>.\<close>

definition insideSpec :: "'n arith \<Rightarrow> 'n config \<Rightarrow> 'n frame \<Rightarrow> 'n \<times> 'n \<Rightarrow> bool" where
  "insideSpec ar cfg fr =
     (\<lambda>(x, y).
        numLessEq ar
          (numAdd ar
             (numDiv ar (numPow ar (numSub ar x (cxSpec ar fr)) 2) (numPow ar (rxSpec ar cfg fr) 2))
             (numDiv ar (numPow ar (numSub ar y (cySpec ar fr)) 2) (numPow ar (rySpec ar cfg fr) 2)))
          (numLit ar 1))"

text \<open>The four corners of the axis-aligned bounding box of the keypoints: the minimum and
  the maximum of the x coordinates paired with those of the y coordinates.\<close>

definition cornersSpec :: "'n arith \<Rightarrow> 'n keypoint list \<Rightarrow> ('n \<times> 'n) list" where
  "cornersSpec ar kps =
     [(mathMin ar (map px kps), mathMin ar (map py kps)),
      (mathMax ar (map px kps), mathMin ar (map py kps)),
      (mathMin ar (map px kps), mathMax ar (map py kps)),
      (mathMax ar (map px kps), mathMax ar (map py kps))]"

text \<open>The count of keypoints inside the ellipse divided by the total keypoint count.\<close>

definition fractionInsideSpec :: "'n arith \<Rightarrow> 'n config \<Rightarrow> 'n frame \<Rightarrow> 'n keypoint list \<Rightarrow> 'n" where
  "fractionInsideSpec ar cfg fr kps =
     numDiv ar
       (numLit ar (real (length (filter (\<lambda>p. insideSpec ar cfg fr (px p, py p)) kps))))
       (numLit ar (real (length kps)))"

text \<open>The eye distance: the Euclidean distance between the landmarks 33 and 263. The
  relative eye distance: \<open>eyeDistance / max(2 * min(rx, ry), 1)\<close>.\<close>

definition eyeDistanceSpec :: "'n arith \<Rightarrow> 'n face \<Rightarrow> 'n" where
  "eyeDistanceSpec ar fc =
     mathHypot ar (numSub ar (px (keypoints fc ! 33)) (px (keypoints fc ! 263)))
       (numSub ar (py (keypoints fc ! 33)) (py (keypoints fc ! 263)))"

definition relativeEyeDistanceSpec :: "'n arith \<Rightarrow> 'n config \<Rightarrow> 'n frame \<Rightarrow> 'n face \<Rightarrow> 'n" where
  "relativeEyeDistanceSpec ar cfg fr fc =
     numDiv ar (eyeDistanceSpec ar fc)
       (mathMax ar
          [numMul ar (numLit ar 2) (mathMin ar [rxSpec ar cfg fr, rySpec ar cfg fr]), numLit ar 1])"

subsection \<open>Invariants of the cells\<close>

text \<open>Two facts that hold of the initial cells and after every frame: while a good streak
  at or above \<open>minFramesIn\<close> lasts, capture is allowed; and while capture is allowed during
  a bad streak, the streak is below \<open>minFramesOut\<close> (or \<open>minFramesIn\<close> is not positive).\<close>

definition hysteresisInv :: "'n config \<Rightarrow> 'n state \<Rightarrow> bool" where
  "hysteresisInv cfg st \<longleftrightarrow>
     (0 < goodStreak st \<and> minFramesIn cfg \<le> int (goodStreak st) \<longrightarrow> lastCaptureAllowed st) \<and>
     (lastCaptureAllowed st \<and> 0 < badStreak st \<longrightarrow>
        int (badStreak st) < minFramesOut cfg \<or> minFramesIn cfg \<le> 0)"

text \<open>A baseline is only ever held while the lost streak is below the reset threshold.\<close>

definition calibrationInv :: "'n state \<Rightarrow> bool" where
  "calibrationInv st \<longleftrightarrow> (baselineEyePx st \<noteq> None \<longrightarrow> lostStreak st < LOST_RESET_STREAK)"

subsection \<open>Concrete frames\<close>

text \<open>To run the code on concrete frames the operations must be given. \<open>exactArith\<close> is
  the arithmetic of the real numbers, without rounding. It serves only to exhibit inputs
  on which the hypotheses of the theorems hold; the theorems themselves are proved for
  every arithmetic. The reals have no infinity and no NaN: the minimum of no number and a
  quotient by zero are whatever HOL makes of them, and the frames below reach neither.
  \<open>exactConfig\<close> is the default configuration on these numbers.\<close>

definition exactArith :: "real arith" where
  "exactArith =
     \<lparr> numLit = (\<lambda>r. r), numAdd = (+), numSub = (-), numMul = (*), numDiv = (/),
       numPow = (^), numLess = (<), numLessEq = (\<le>),
       mathMin = (\<lambda>vs. Min (set vs)), mathMax = (\<lambda>vs. Max (set vs)),
       mathHypot = (\<lambda>a b. sqrt (a\<^sup>2 + b\<^sup>2)) \<rparr>"

definition exactConfig :: "real config" where
  "exactConfig = defaultConfig exactArith"

text \<open>A 640 by 480 video: the ellipse has centre \<open>(320, 192)\<close> and radii \<open>192\<close> and
  \<open>148.8\<close>. The face below has 264 keypoints, all at the centre but the two eye reference
  points, which are 40 pixels apart.\<close>

definition goodKeypoints :: "real keypoint list" where
  "goodKeypoints =
     replicate 33 \<lparr> px = 320, py = 192 \<rparr> @ [\<lparr> px = 300, py = 192 \<rparr>] @
     replicate 229 \<lparr> px = 320, py = 192 \<rparr> @ [\<lparr> px = 340, py = 192 \<rparr>]"

definition goodFace :: "real face" where
  "goodFace = \<lparr> keypoints = goodKeypoints, faceInViewConfidence = None \<rparr>"

definition goodFrame :: "real frame" where
  "goodFrame = \<lparr> ready = True, videoWidth = 640, videoHeight = 480, predictions = [goodFace] \<rparr>"

definition noFaceFrame :: "real frame" where
  "noFaceFrame = \<lparr> ready = True, videoWidth = 640, videoHeight = 480, predictions = [] \<rparr>"

text \<open>The same face with the eye reference points 80 pixels apart.\<close>

definition wideKeypoints :: "real keypoint list" where
  "wideKeypoints =
     replicate 33 \<lparr> px = 320, py = 192 \<rparr> @ [\<lparr> px = 280, py = 192 \<rparr>] @
     replicate 229 \<lparr> px = 320, py = 192 \<rparr> @ [\<lparr> px = 360, py = 192 \<rparr>]"

definition wideFace :: "real face" where
  "wideFace = \<lparr> keypoints = wideKeypoints, faceInViewConfidence = None \<rparr>"

definition wideFrame :: "real frame" where
  "wideFrame = \<lparr> ready = True, videoWidth = 640, videoHeight = 480, predictions = [wideFace] \<rparr>"

text \<open>300 keypoints, 288 of them at the centre and 12 at the origin, outside the ellipse:
  the fraction inside is \<open>0.96\<close> and the bounding box is partly outside.\<close>

definition partlyOutsideFace :: "real face" where
  "partlyOutsideFace =
     \<lparr> keypoints = replicate 288 \<lparr> px = 320, py = 192 \<rparr> @ replicate 12 \<lparr> px = 0, py = 0 \<rparr>,
       faceInViewConfidence = Some 0.99 \<rparr>"

definition partlyOutsideFrame :: "real frame" where
  "partlyOutsideFrame =
     \<lparr> ready = True, videoWidth = 640, videoHeight = 480, predictions = [partlyOutsideFace] \<rparr>"

text \<open>The cells after one, five, six, seven and eight calls of \<open>detect\<close> on \<open>goodFrame\<close>
  from the initial cells, under the default configuration.\<close>

definition afterOne :: "real state" where
  "afterOne = \<lparr> lastGoodVisual = True, lastDistanceStatus = Some Ok,
     lastCaptureAllowed = False, goodStreak = 1, badStreak = 0, baselineEyePx = None,
     calibratingStreak = 1, lostStreak = 0 \<rparr>"

definition afterFive :: "real state" where
  "afterFive = \<lparr> lastGoodVisual = True, lastDistanceStatus = Some Ok,
     lastCaptureAllowed = False, goodStreak = 5, badStreak = 0, baselineEyePx = None,
     calibratingStreak = 5, lostStreak = 0 \<rparr>"

definition allowedState :: "real state" where
  "allowedState = \<lparr> lastGoodVisual = True, lastDistanceStatus = Some Ok,
     lastCaptureAllowed = True, goodStreak = 6, badStreak = 0, baselineEyePx = None,
     calibratingStreak = 6, lostStreak = 0 \<rparr>"

definition afterSeven :: "real state" where
  "afterSeven = \<lparr> lastGoodVisual = True, lastDistanceStatus = Some Ok,
     lastCaptureAllowed = True, goodStreak = 7, badStreak = 0, baselineEyePx = None,
     calibratingStreak = 7, lostStreak = 0 \<rparr>"

definition calibratedState :: "real state" where
  "calibratedState = \<lparr> lastGoodVisual = True, lastDistanceStatus = Some Ok,
     lastCaptureAllowed = True, goodStreak = 8, badStreak = 0, baselineEyePx = Some 40,
     calibratingStreak = 8, lostStreak = 0 \<rparr>"

text \<open>The cells one no-face frame after \<open>allowedState\<close>, and one after \<open>calibratedState\<close>.\<close>

definition lostState :: "real state" where
  "lostState = \<lparr> lastGoodVisual = False, lastDistanceStatus = Some TooFar,
     lastCaptureAllowed = False, goodStreak = 0, badStreak = 1, baselineEyePx = None,
     calibratingStreak = 6, lostStreak = 1 \<rparr>"

definition lostCalibratedState :: "real state" where
  "lostCalibratedState = \<lparr> lastGoodVisual = False, lastDistanceStatus = Some TooFar,
     lastCaptureAllowed = False, goodStreak = 0, badStreak = 1, baselineEyePx = Some 40,
     calibratingStreak = 8, lostStreak = 1 \<rparr>"

text \<open>Eleven no-face frames after a calibration, and the twelfth.\<close>

definition elevenLostState :: "real state" where
  "elevenLostState = \<lparr> lastGoodVisual = False, lastDistanceStatus = Some TooFar,
     lastCaptureAllowed = False, goodStreak = 0, badStreak = 11, baselineEyePx = Some 40,
     calibratingStreak = 8, lostStreak = 11 \<rparr>"

definition resetState :: "real state" where
  "resetState = \<lparr> lastGoodVisual = False, lastDistanceStatus = Some TooFar,
     lastCaptureAllowed = False, goodStreak = 0, badStreak = 12, baselineEyePx = None,
     calibratingStreak = 0, lostStreak = 12 \<rparr>"

text \<open>Cells with a baseline of 100 pixels, and what \<open>wideFrame\<close> makes of them.\<close>

definition baseline100State :: "real state" where
  "baseline100State = \<lparr> lastGoodVisual = True, lastDistanceStatus = Some Ok,
     lastCaptureAllowed = True, goodStreak = 8, badStreak = 0, baselineEyePx = Some 100,
     calibratingStreak = 8, lostStreak = 0 \<rparr>"

definition tooFarState :: "real state" where
  "tooFarState = \<lparr> lastGoodVisual = False, lastDistanceStatus = Some TooFar,
     lastCaptureAllowed = False, goodStreak = 0, badStreak = 1, baselineEyePx = Some 100,
     calibratingStreak = 9, lostStreak = 0 \<rparr>"

text \<open>The default configuration without the bounding-box requirement.\<close>

definition noBoxConfig :: "real config" where
  "noBoxConfig = exactConfig\<lparr> boxInsideRequired := False \<rparr>"

section \<open>One call of \<open>detect\<close>, summarised\<close>

lemma reportDistance_fst:
  "fst (reportDistance st d) = st\<lparr> lastDistanceStatus := Some d \<rparr>"
  by (simp add: reportDistance_def)

lemma reportDistance_snd:
  "snd (reportDistance st d) =
     (if Some d \<noteq> lastDistanceStatus st then [FaceDistanceChange d] else [])"
  by (simp add: reportDistance_def)

lemma reportSignals_fst:
  "fst (reportSignals st c g) = st\<lparr> lastCaptureAllowed := c, lastGoodVisual := g \<rparr>"
  by (simp add: reportSignals_def)

lemma reportSignals_snd:
  "snd (reportSignals st c g) =
     (if c \<noteq> lastCaptureAllowed st then [CaptureAllowedChange c] else []) @
     (if g \<noteq> lastGoodVisual st then [FaceStatusChange g] else [])"
  by (simp add: reportSignals_def)

lemma calibrate_keeps:
  "lastGoodVisual (calibrate st gOk e) = lastGoodVisual st"
  "lastDistanceStatus (calibrate st gOk e) = lastDistanceStatus st"
  "lastCaptureAllowed (calibrate st gOk e) = lastCaptureAllowed st"
  "goodStreak (calibrate st gOk e) = goodStreak st"
  "badStreak (calibrate st gOk e) = badStreak st"
  by (simp_all add: calibrate_def Let_def)

lemma calibrate_counters:
  "calibratingStreak (calibrate st gOk e) = (if gOk then calibratingStreak st + 1 else 0)"
  "lostStreak (calibrate st gOk e) = (if gOk then 0 else lostStreak st)"
  "baselineEyePx (calibrate st gOk e) =
     (if gOk \<and> baselineEyePx st = None \<and> CALIBRATE_MIN_STREAK \<le> calibratingStreak st + 1
      then Some e else baselineEyePx st)"
  by (simp_all add: calibrate_def Let_def)

lemma noFaceBranch_fst:
  "fst (noFaceBranch st) =
     st\<lparr> lostStreak := lostStreak st + 1,
         baselineEyePx :=
           (if LOST_RESET_STREAK \<le> lostStreak st + 1 then None else baselineEyePx st),
         calibratingStreak :=
           (if LOST_RESET_STREAK \<le> lostStreak st + 1 then 0 else calibratingStreak st),
         lastDistanceStatus := Some TooFar, goodStreak := 0, badStreak := badStreak st + 1,
         lastCaptureAllowed := False, lastGoodVisual := False \<rparr>"
  by (simp add: noFaceBranch_def Let_def split_beta reportDistance_fst reportSignals_fst)

lemma noFaceBranch_snd:
  "snd (noFaceBranch st) =
     (if lastDistanceStatus st \<noteq> Some TooFar then [FaceDistanceChange TooFar] else []) @
     [KeypointsDetected None] @
     (if lastCaptureAllowed st then [CaptureAllowedChange False] else []) @
     (if lastGoodVisual st then [FaceStatusChange False] else [])"
  by (simp add: noFaceBranch_def Let_def split_beta reportDistance_fst reportDistance_snd
      reportSignals_snd)

lemma faceBranch_fst:
  "fst (faceBranch ar cfg st w h fc) =
     (let gOk = geometryOk ar cfg w h fc;
          d = distanceStatusOf ar cfg st w h fc;
          g = (if d = Ok \<and> gOk then goodStreak st + 1 else 0);
          b = (if d = Ok \<and> gOk then 0 else badStreak st + 1)
      in (calibrate st gOk (eyeDistanceOf ar fc))
           \<lparr> lastDistanceStatus := Some d, goodStreak := g, badStreak := b,
             lastCaptureAllowed :=
               (if d \<noteq> Ok then False
                else if minFramesIn cfg \<le> int g then True
                else if minFramesOut cfg \<le> int b then False
                else lastCaptureAllowed st),
             lastGoodVisual := (d = Ok \<and> gOk) \<rparr>)"
  by (simp add: faceBranch_def distanceStatusOf_def Let_def split_beta
      reportDistance_fst reportSignals_fst calibrate_keeps)

lemma faceBranch_snd:
  "snd (faceBranch ar cfg st w h fc) =
     (let gOk = geometryOk ar cfg w h fc;
          d = distanceStatusOf ar cfg st w h fc;
          g = (if d = Ok \<and> gOk then goodStreak st + 1 else 0);
          b = (if d = Ok \<and> gOk then 0 else badStreak st + 1);
          c = (if d \<noteq> Ok then False
               else if minFramesIn cfg \<le> int g then True
               else if minFramesOut cfg \<le> int b then False
               else lastCaptureAllowed st)
      in (if lastDistanceStatus st \<noteq> Some d then [FaceDistanceChange d] else []) @
         [KeypointsDetected (Some (keypoints fc))] @
         (if c \<noteq> lastCaptureAllowed st then [CaptureAllowedChange c] else []) @
         (if (d = Ok \<and> gOk) \<noteq> lastGoodVisual st
          then [FaceStatusChange (d = Ok \<and> gOk)] else []))"
  by (simp add: faceBranch_def distanceStatusOf_def Let_def split_beta
      reportDistance_fst reportDistance_snd reportSignals_fst reportSignals_snd calibrate_keeps)

lemma detect_skipped: "\<not> processed fr \<Longrightarrow> detect ar cfg st fr = Inr (st, [])"
  by (auto simp: detect_def processed_def)

lemma detect_noFace:
  "processed fr \<Longrightarrow> predictions fr = [] \<Longrightarrow> detect ar cfg st fr = Inr (noFaceBranch st)"
  by (simp add: detect_def processed_def processFrame_def)

lemma detect_face:
  "processed fr \<Longrightarrow> predictions fr = fc # rest \<Longrightarrow>
   detect ar cfg st fr =
     (if length (keypoints fc) \<le> 263 then Inl TypeError
      else Inr (faceBranch ar cfg st (canvasWidth ar fr) (canvasHeight ar fr) fc))"
  by (simp add: detect_def processed_def processFrame_def)

text \<open>\<open>detect\<close> throws exactly on a processed frame whose first face lacks an eye keypoint.\<close>

lemma detect_throws_iff:
  "detect ar cfg st fr = Inl e \<longleftrightarrow>
     processed fr \<and> (\<exists>fc rest. predictions fr = fc # rest \<and> length (keypoints fc) \<le> 263)"
proof (cases "processed fr")
  case False
  then show ?thesis by (simp add: detect_skipped)
next
  case True
  then show ?thesis
    by (cases "predictions fr"; cases e) (simp_all add: detect_noFace detect_face)
qed

text \<open>The three ways a call can return.\<close>

lemma detect_cases:
  assumes "detect ar cfg st fr = Inr (st', evs)"
  obtains
    (skipped) "\<not> processed fr" "st' = st" "evs = []"
  | (noFace) "processed fr" "predictions fr = []"
      "st' = fst (noFaceBranch st)" "evs = snd (noFaceBranch st)"
  | (face) fc rest where "processed fr" "predictions fr = fc # rest"
      "263 < length (keypoints fc)"
      "st' = fst (faceBranch ar cfg st (canvasWidth ar fr) (canvasHeight ar fr) fc)"
      "evs = snd (faceBranch ar cfg st (canvasWidth ar fr) (canvasHeight ar fr) fc)"
proof (cases "processed fr")
  case False
  with assms have "st' = st" "evs = []" by (simp_all add: detect_skipped)
  with False show ?thesis by (rule skipped)
next
  case True
  show ?thesis
  proof (cases "predictions fr")
    case Nil
    with True assms have "noFaceBranch st = (st', evs)" by (simp add: detect_noFace)
    then have "st' = fst (noFaceBranch st)" "evs = snd (noFaceBranch st)" by simp_all
    with True Nil show ?thesis by (rule noFace)
  next
    case (Cons fc rest)
    with True assms have len: "263 < length (keypoints fc)"
      by (simp add: detect_face split: if_splits)
    with True Cons assms
    have "faceBranch ar cfg st (canvasWidth ar fr) (canvasHeight ar fr) fc = (st', evs)"
      by (simp add: detect_face)
    then have "st' = fst (faceBranch ar cfg st (canvasWidth ar fr) (canvasHeight ar fr) fc)"
      "evs = snd (faceBranch ar cfg st (canvasWidth ar fr) (canvasHeight ar fr) fc)"
      by simp_all
    with True Cons len show ?thesis by (rule face)
  qed
qed

text \<open>The calls of a processed frame, and the distance status it stores.\<close>

lemma detect_events:
  assumes "processed fr" and "detect ar cfg st fr = Inr (st', evs)"
  shows "evs = callsFor st st' fr \<and>
         lastDistanceStatus st' =
           Some (case predictions fr of
                   [] \<Rightarrow> TooFar
                 | fc # _ \<Rightarrow>
                     distanceStatusOf ar cfg st (canvasWidth ar fr) (canvasHeight ar fr) fc)"
  using assms(2)
proof (cases rule: detect_cases)
  case skipped
  with assms(1) show ?thesis by simp
next
  case noFace
  then show ?thesis
    by (simp add: noFaceBranch_fst noFaceBranch_snd keypointsOf_def callsFor_def)
next
  case (face fc rest)
  then show ?thesis
    by (simp add: faceBranch_fst faceBranch_snd Let_def keypointsOf_def calibrate_keeps
        callsFor_def)
qed

section \<open>Invariants along a run\<close>

lemma run_Cons_Inr:
  assumes "run ar cfg st (fr # frs) = Inr (st', evs)"
  obtains st1 evs1 evs2 where "detect ar cfg st fr = Inr (st1, evs1)"
    and "run ar cfg st1 frs = Inr (st', evs2)" and "evs = evs1 @ evs2"
  using assms by (auto split: sum.splits prod.splits)

lemma run_invariant:
  assumes step: "\<And>st fr st' evs. P st \<Longrightarrow> detect ar cfg st fr = Inr (st', evs) \<Longrightarrow> P st'"
  shows "P st \<Longrightarrow> run ar cfg st frs = Inr (st', evs) \<Longrightarrow> P st'"
proof (induction frs arbitrary: st evs)
  case Nil
  then show ?case by simp
next
  case (Cons fr frs)
  from Cons.prems(2) obtain st1 evs1 evs2
    where d: "detect ar cfg st fr = Inr (st1, evs1)" and r: "run ar cfg st1 frs = Inr (st', evs2)"
    by (rule run_Cons_Inr)
  from step [OF Cons.prems(1) d] have "P st1" .
  then show ?case using r by (rule Cons.IH)
qed

lemma hysteresisInv_step:
  assumes "hysteresisInv cfg st" and "detect ar cfg st fr = Inr (st', evs)"
  shows "hysteresisInv cfg st'"
  using assms(2)
proof (cases rule: detect_cases)
  case skipped
  with assms(1) show ?thesis by simp
next
  case noFace
  then show ?thesis by (simp add: noFaceBranch_fst hysteresisInv_def)
next
  case (face fc rest)
  with assms(1) show ?thesis
    by (simp add: faceBranch_fst Let_def hysteresisInv_def calibrate_keeps)
qed

lemma hysteresisInv_initial: "hysteresisInv cfg initialState"
  by (simp add: hysteresisInv_def initialState_def)

lemma hysteresisInv_run:
  "run ar cfg initialState frs = Inr (st, evs) \<Longrightarrow> hysteresisInv cfg st"
  using hysteresisInv_step hysteresisInv_initial by (rule run_invariant)

lemma calibrationInv_step:
  assumes "calibrationInv st" and "detect ar cfg st fr = Inr (st', evs)"
  shows "calibrationInv st'"
  using assms(2)
proof (cases rule: detect_cases)
  case skipped
  with assms(1) show ?thesis by simp
next
  case noFace
  with assms(1) show ?thesis by (simp add: noFaceBranch_fst calibrationInv_def)
next
  case (face fc rest)
  with assms(1) show ?thesis
    by (simp add: faceBranch_fst Let_def calibrationInv_def calibrate_counters
        LOST_RESET_STREAK_def)
qed

lemma calibrationInv_run:
  "run ar cfg initialState frs = Inr (st, evs) \<Longrightarrow> calibrationInv st"
proof (rule run_invariant)
  show "calibrationInv initialState" by (simp add: calibrationInv_def initialState_def)
qed (rule calibrationInv_step)

text \<open>While the baseline is unset, frames with good geometry only count up.\<close>

lemma calibrating_run:
  assumes "\<forall>fr \<in> set frs. frameGeometryOk ar cfg fr"
    and "baselineEyePx st = None"
    and "calibratingStreak st + length frs < CALIBRATE_MIN_STREAK"
    and "run ar cfg st frs = Inr (st', evs)"
  shows "baselineEyePx st' = None \<and> calibratingStreak st' = calibratingStreak st + length frs"
  using assms
proof (induction frs arbitrary: st evs)
  case Nil
  then show ?case by simp
next
  case (Cons fr frs)
  from Cons.prems(4) obtain st1 evs1 evs2
    where d: "detect ar cfg st fr = Inr (st1, evs1)" and r: "run ar cfg st1 frs = Inr (st', evs2)"
    by (rule run_Cons_Inr)
  from Cons.prems(1) have g: "frameGeometryOk ar cfg fr" by simp
  from d have st1: "baselineEyePx st1 = None \<and> calibratingStreak st1 = calibratingStreak st + 1"
  proof (cases rule: detect_cases)
    case skipped
    with g show ?thesis by (simp add: frameGeometryOk_def)
  next
    case noFace
    with g show ?thesis by (simp add: frameGeometryOk_def)
  next
    case (face fc rest)
    with g Cons.prems(2,3) show ?thesis
      by (simp add: frameGeometryOk_def faceBranch_fst Let_def calibrate_counters)
  qed
  with Cons.prems(1,3) r Cons.IH [of st1 evs2] show ?case by simp
qed

text \<open>The values passed to the face-good and capture-allowed callbacks alternate.\<close>

lemma faceStatusValues_append:
  "faceStatusValues (xs @ ys) = faceStatusValues xs @ faceStatusValues ys"
  by (induction xs rule: faceStatusValues.induct) simp_all

lemma captureAllowedValues_append:
  "captureAllowedValues (xs @ ys) = captureAllowedValues xs @ captureAllowedValues ys"
  by (induction xs rule: captureAllowedValues.induct) simp_all

lemma distanceStatusValues_append:
  "distanceStatusValues (xs @ ys) = distanceStatusValues xs @ distanceStatusValues ys"
  by (induction xs rule: distanceStatusValues.induct) simp_all

lemma detect_values:
  assumes "detect ar cfg st fr = Inr (st', evs)"
  shows "faceStatusValues evs =
           (if lastGoodVisual st' \<noteq> lastGoodVisual st then [lastGoodVisual st'] else []) \<and>
         captureAllowedValues evs =
           (if lastCaptureAllowed st' \<noteq> lastCaptureAllowed st
            then [lastCaptureAllowed st'] else [])"
proof (cases "processed fr")
  case True
  with assms have "evs = callsFor st st' fr" using detect_events [of fr ar cfg st st' evs] by simp
  then show ?thesis
    by (simp add: callsFor_def faceStatusValues_append captureAllowedValues_append
        split: option.splits)
next
  case False
  with assms show ?thesis by (simp add: detect_skipped)
qed

lemma run_values:
  assumes "run ar cfg st frs = Inr (st', evs)"
  shows "(case faceStatusValues evs of
            [] \<Rightarrow> lastGoodVisual st' = lastGoodVisual st
          | v # _ \<Rightarrow> v = (\<not> lastGoodVisual st)) \<and>
         (case captureAllowedValues evs of
            [] \<Rightarrow> lastCaptureAllowed st' = lastCaptureAllowed st
          | v # _ \<Rightarrow> v = (\<not> lastCaptureAllowed st))"
  using assms
proof (induction frs arbitrary: st evs)
  case Nil
  then show ?case by simp
next
  case (Cons fr frs)
  from Cons.prems obtain st1 evs1 evs2
    where d: "detect ar cfg st fr = Inr (st1, evs1)" and r: "run ar cfg st1 frs = Inr (st', evs2)"
      and e: "evs = evs1 @ evs2"
    by (rule run_Cons_Inr)
  from detect_values [OF d] Cons.IH [OF r] show ?case
    unfolding e
    by (auto simp: faceStatusValues_append captureAllowedValues_append
        split: list.splits if_splits)
qed

section \<open>The helpers compute what the specification describes\<close>

lemma countInside_eq:
  "countInside ar kps cx cy rx ry inside =
     inside + length (filter (\<lambda>p. isInsideEllipse ar (px p) (py p) cx cy rx ry) kps)"
  by (induction kps arbitrary: inside) simp_all

lemma region_spec:
  "centerX ar (canvasWidth ar fr) = cxSpec ar fr"
  "centerY ar (canvasHeight ar fr) = cySpec ar fr"
  "radiusX ar cfg (canvasWidth ar fr) = rxSpec ar cfg fr"
  "radiusY ar cfg (canvasHeight ar fr) = rySpec ar cfg fr"
  by (simp_all add: centerX_def centerY_def radiusX_def radiusY_def canvasWidth_def
      canvasHeight_def cxSpec_def cySpec_def rxSpec_def rySpec_def)

lemma isInsideEllipse_spec:
  "isInsideEllipse ar x y (cxSpec ar fr) (cySpec ar fr) (rxSpec ar cfg fr) (rySpec ar cfg fr) =
     insideSpec ar cfg fr (x, y)"
  by (simp add: isInsideEllipse_def insideSpec_def)

lemma isBoundingBoxInsideEllipse_spec:
  "isBoundingBoxInsideEllipse ar kps (cxSpec ar fr) (cySpec ar fr) (rxSpec ar cfg fr)
     (rySpec ar cfg fr) =
   list_all (insideSpec ar cfg fr) (cornersSpec ar kps)"
  by (simp add: isBoundingBoxInsideEllipse_def getBoundingBox_def Let_def cornersSpec_def
      isInsideEllipse_spec)

lemma fractionInsideEllipse_spec:
  "fractionInsideEllipse ar kps (cxSpec ar fr) (cySpec ar fr) (rxSpec ar cfg fr)
     (rySpec ar cfg fr) =
   fractionInsideSpec ar cfg fr kps"
  by (simp add: fractionInsideEllipse_def countInside_eq fractionInsideSpec_def
      isInsideEllipse_spec)

lemma eyeDistanceOf_spec: "eyeDistanceOf ar fc = eyeDistanceSpec ar fc"
  by (simp add: eyeDistanceOf_def getDistance_def eyeDistanceSpec_def Let_def)

lemma relativeEyeDistanceOf_spec:
  "relativeEyeDistanceOf ar cfg (canvasWidth ar fr) (canvasHeight ar fr) fc =
     relativeEyeDistanceSpec ar cfg fr fc"
  by (simp add: relativeEyeDistanceOf_def relativeEyeDistanceSpec_def Let_def region_spec
      eyeDistanceOf_spec)

section \<open>The concrete frames, evaluated\<close>

lemma exactArith_fields:
  "numLit exactArith r = r" "numAdd exactArith a b = a + b" "numSub exactArith a b = a - b"
  "numMul exactArith a b = a * b" "numDiv exactArith a b = a / b"
  "numPow exactArith a n = a ^ n" "numLess exactArith a b \<longleftrightarrow> a < b"
  "numLessEq exactArith a b \<longleftrightarrow> a \<le> b"
  "mathMin exactArith vs = Min (set vs)" "mathMax exactArith vs = Max (set vs)"
  "mathHypot exactArith a b = sqrt (a\<^sup>2 + b\<^sup>2)"
  by (simp_all add: exactArith_def)

lemma exactConfig_fields:
  "minFramesIn exactConfig = 6" "minFramesOut exactConfig = 3"
  "boxInsideRequired exactConfig" "percentInsideRequired exactConfig = 0.95"
  "ellipseMargin exactConfig = 1" "minEyeRatio exactConfig = 0.08"
  "maxEyeRatio exactConfig = 0.18"
  by (simp_all add: exactConfig_def defaultConfig_def exactArith_fields)

lemma noBoxConfig_fields:
  "\<not> boxInsideRequired noBoxConfig" "percentInsideRequired noBoxConfig = 0.95"
  "ellipseMargin noBoxConfig = 1"
  by (simp_all add: noBoxConfig_def exactConfig_fields)

lemma getDistance_level:
  "py p1 = py p2 \<Longrightarrow> getDistance exactArith p1 p2 = \<bar>px p1 - px p2\<bar>"
  by (simp add: getDistance_def exactArith_fields)

lemma frame_size:
  "canvasWidth exactArith goodFrame = 640" "canvasHeight exactArith goodFrame = 480"
  "canvasWidth exactArith wideFrame = 640" "canvasHeight exactArith wideFrame = 480"
  "canvasWidth exactArith partlyOutsideFrame = 640"
  "canvasHeight exactArith partlyOutsideFrame = 480"
  by (simp_all add: canvasWidth_def canvasHeight_def exactArith_fields goodFrame_def
      wideFrame_def partlyOutsideFrame_def)

lemma goodFace_keypoints: "keypoints goodFace = goodKeypoints"
  by (simp add: goodFace_def)

lemma goodFace_eyeDistance: "eyeDistanceOf exactArith goodFace = 40"
  by (simp add: eyeDistanceOf_def goodFace_def goodKeypoints_def nth_append getDistance_level)

lemma goodFace_relative:
  "relativeEyeDistanceOf exactArith exactConfig 640 480 goodFace = 40 / 297.6"
  by (simp add: relativeEyeDistanceOf_def goodFace_eyeDistance radiusX_def radiusY_def
      exactConfig_fields exactArith_fields)

lemma goodFace_boxOk: "boxOk exactArith exactConfig 640 480 goodFace"
  by (simp add: boxOk_def isBoundingBoxInsideEllipse_def getBoundingBox_def goodFace_def
      goodKeypoints_def isInsideEllipse_def centerX_def centerY_def radiusX_def radiusY_def
      exactConfig_fields exactArith_fields power2_eq_square)

lemma goodFace_fracOk: "fracOk exactArith exactConfig 640 480 goodFace"
  by (simp add: fracOk_def fractionInsideEllipse_def countInside_eq goodFace_def
      goodKeypoints_def isInsideEllipse_def centerX_def centerY_def radiusX_def radiusY_def
      exactConfig_fields exactArith_fields power2_eq_square)

lemma goodFace_geometryOk: "geometryOk exactArith exactConfig 640 480 goodFace"
  using goodFace_boxOk goodFace_fracOk by (simp add: geometryOk_def confidenceOk_def goodFace_def)

lemma goodFrame_fields:
  "ready goodFrame" "videoWidth goodFrame = 640" "videoHeight goodFrame = 480"
  "predictions goodFrame = [goodFace]"
  by (simp_all add: goodFrame_def)

lemma goodFrame_processed: "processed goodFrame"
  by (simp add: processed_def goodFrame_def)

lemma goodFrame_geometryOk: "frameGeometryOk exactArith exactConfig goodFrame"
  using goodFace_geometryOk
  by (simp add: frameGeometryOk_def goodFrame_processed frame_size goodFrame_fields)

lemma detect_goodFrame:
  "detect exactArith exactConfig st goodFrame =
     Inr (fst (faceBranch exactArith exactConfig st 640 480 goodFace),
          snd (faceBranch exactArith exactConfig st 640 480 goodFace))"
  by (simp add: detect_def processFrame_def frame_size goodFrame_fields goodFace_def
      goodKeypoints_def)

text \<open>One call on \<open>goodFrame\<close> while the baseline is unset, in closed form.\<close>

lemma goodFrame_step:
  "detect exactArith exactConfig
     \<lparr> lastGoodVisual = g, lastDistanceStatus = d, lastCaptureAllowed = c, goodStreak = n,
       badStreak = b, baselineEyePx = None, calibratingStreak = k, lostStreak = l \<rparr> goodFrame =
   Inr (\<lparr> lastGoodVisual = True, lastDistanceStatus = Some Ok,
          lastCaptureAllowed = (5 \<le> n \<or> c), goodStreak = n + 1, badStreak = 0,
          baselineEyePx = (if 7 \<le> k then Some 40 else None), calibratingStreak = k + 1,
          lostStreak = 0 \<rparr>,
        (if d \<noteq> Some Ok then [FaceDistanceChange Ok] else []) @
        [KeypointsDetected (Some goodKeypoints)] @
        (if 5 \<le> n \<and> \<not> c then [CaptureAllowedChange True] else []) @
        (if \<not> g then [FaceStatusChange True] else []))"
  unfolding detect_goodFrame
  by (simp add: goodFace_keypoints faceBranch_fst faceBranch_snd Let_def distanceStatusOf_def
      classifyDistance_def calibrate_def goodFace_geometryOk goodFace_eyeDistance
      goodFace_relative CALIBRATE_MIN_STREAK_def FAR_FACTOR_def CLOSE_FACTOR_def
      exactConfig_fields exactArith_fields)

lemma noFaceFrame_processed: "processed noFaceFrame \<and> predictions noFaceFrame = []"
  by (simp add: processed_def noFaceFrame_def)

lemma noFaceFrame_step:
  "detect ar cfg st noFaceFrame = Inr (fst (noFaceBranch st), snd (noFaceBranch st))"
  by (simp add: detect_def processFrame_def noFaceFrame_def)

lemma detect_initial_good:
  "detect exactArith exactConfig initialState goodFrame =
   Inr (afterOne,
        [FaceDistanceChange Ok, KeypointsDetected (Some goodKeypoints), FaceStatusChange True])"
  by (simp add: goodFrame_step initialState_def afterOne_def)

lemma detect_afterOne_good:
  "detect exactArith exactConfig afterOne goodFrame =
   Inr (afterOne\<lparr> goodStreak := 2, calibratingStreak := 2 \<rparr>,
        [KeypointsDetected (Some goodKeypoints)])"
  by (simp add: goodFrame_step afterOne_def)

lemma detect_afterFive_good:
  "detect exactArith exactConfig afterFive goodFrame =
   Inr (allowedState, [KeypointsDetected (Some goodKeypoints), CaptureAllowedChange True])"
  by (simp add: goodFrame_step afterFive_def allowedState_def)

lemma detect_afterSeven_good:
  "detect exactArith exactConfig afterSeven goodFrame =
   Inr (calibratedState, [KeypointsDetected (Some goodKeypoints)])"
  by (simp add: goodFrame_step afterSeven_def calibratedState_def)

lemma run_five_good:
  "run exactArith exactConfig initialState [goodFrame, goodFrame, goodFrame, goodFrame, goodFrame] =
   Inr (afterFive,
        [FaceDistanceChange Ok, KeypointsDetected (Some goodKeypoints), FaceStatusChange True,
         KeypointsDetected (Some goodKeypoints), KeypointsDetected (Some goodKeypoints),
         KeypointsDetected (Some goodKeypoints), KeypointsDetected (Some goodKeypoints)])"
  by (simp add: goodFrame_step initialState_def afterFive_def)

lemma run_six_good:
  "run exactArith exactConfig initialState
     [goodFrame, goodFrame, goodFrame, goodFrame, goodFrame, goodFrame] =
   Inr (allowedState,
        [FaceDistanceChange Ok, KeypointsDetected (Some goodKeypoints), FaceStatusChange True,
         KeypointsDetected (Some goodKeypoints), KeypointsDetected (Some goodKeypoints),
         KeypointsDetected (Some goodKeypoints), KeypointsDetected (Some goodKeypoints),
         KeypointsDetected (Some goodKeypoints), CaptureAllowedChange True])"
  by (simp add: goodFrame_step initialState_def allowedState_def)

lemma run_seven_good:
  "run exactArith exactConfig initialState
     [goodFrame, goodFrame, goodFrame, goodFrame, goodFrame, goodFrame, goodFrame] =
   Inr (afterSeven,
        [FaceDistanceChange Ok, KeypointsDetected (Some goodKeypoints), FaceStatusChange True,
         KeypointsDetected (Some goodKeypoints), KeypointsDetected (Some goodKeypoints),
         KeypointsDetected (Some goodKeypoints), KeypointsDetected (Some goodKeypoints),
         KeypointsDetected (Some goodKeypoints), CaptureAllowedChange True,
         KeypointsDetected (Some goodKeypoints)])"
  by (simp add: goodFrame_step initialState_def afterSeven_def)

lemma run_eight_good:
  "run exactArith exactConfig initialState
     [goodFrame, goodFrame, goodFrame, goodFrame, goodFrame, goodFrame, goodFrame, goodFrame] =
   Inr (calibratedState,
        [FaceDistanceChange Ok, KeypointsDetected (Some goodKeypoints), FaceStatusChange True,
         KeypointsDetected (Some goodKeypoints), KeypointsDetected (Some goodKeypoints),
         KeypointsDetected (Some goodKeypoints), KeypointsDetected (Some goodKeypoints),
         KeypointsDetected (Some goodKeypoints), CaptureAllowedChange True,
         KeypointsDetected (Some goodKeypoints), KeypointsDetected (Some goodKeypoints)])"
  by (simp add: goodFrame_step initialState_def calibratedState_def)

lemma detect_allowed_noFace:
  "detect exactArith exactConfig allowedState noFaceFrame =
   Inr (lostState,
        [FaceDistanceChange TooFar, KeypointsDetected None, CaptureAllowedChange False,
         FaceStatusChange False])"
  by (simp add: noFaceFrame_step noFaceBranch_fst noFaceBranch_snd allowedState_def
      lostState_def LOST_RESET_STREAK_def)

lemma detect_calibrated_noFace:
  "detect exactArith exactConfig calibratedState noFaceFrame =
   Inr (lostCalibratedState,
        [FaceDistanceChange TooFar, KeypointsDetected None, CaptureAllowedChange False,
         FaceStatusChange False])"
  by (simp add: noFaceFrame_step noFaceBranch_fst noFaceBranch_snd calibratedState_def
      lostCalibratedState_def LOST_RESET_STREAK_def)

lemma detect_elevenLost_noFace:
  "detect exactArith exactConfig elevenLostState noFaceFrame = Inr (resetState, [KeypointsDetected None])"
  by (simp add: noFaceFrame_step noFaceBranch_fst noFaceBranch_snd elevenLostState_def
      resetState_def LOST_RESET_STREAK_def)

lemma wideFrame_facts:
  "processed wideFrame" "predictions wideFrame = [wideFace]"
  by (simp_all add: processed_def wideFrame_def)

lemma wideFace_eyeDistance: "eyeDistanceOf exactArith wideFace = 80"
  by (simp add: eyeDistanceOf_def wideFace_def wideKeypoints_def nth_append getDistance_level)

lemma wideFace_geometryOk: "geometryOk exactArith exactConfig 640 480 wideFace"
  by (simp add: geometryOk_def confidenceOk_def boxOk_def fracOk_def
      isBoundingBoxInsideEllipse_def getBoundingBox_def fractionInsideEllipse_def
      countInside_eq wideFace_def wideKeypoints_def isInsideEllipse_def centerX_def
      centerY_def radiusX_def radiusY_def exactConfig_fields exactArith_fields
      power2_eq_square)

lemma detect_baseline100_wide:
  "detect exactArith exactConfig baseline100State wideFrame =
   Inr (tooFarState,
        [FaceDistanceChange TooFar, KeypointsDetected (Some wideKeypoints),
         CaptureAllowedChange False, FaceStatusChange False])"
proof -
  have len: "\<not> length (keypoints wideFace) \<le> 263"
    by (simp add: wideFace_def wideKeypoints_def)
  have k: "keypoints wideFace = wideKeypoints" by (simp add: wideFace_def)
  have d: "distanceStatusOf exactArith exactConfig baseline100State 640 480 wideFace = TooFar"
    by (simp add: distanceStatusOf_def classifyDistance_def calibrate_counters
        wideFace_eyeDistance baseline100State_def FAR_FACTOR_def exactArith_fields)
  have 1: "fst (faceBranch exactArith exactConfig baseline100State 640 480 wideFace) =
      tooFarState"
    unfolding faceBranch_fst Let_def d
    by (simp add: wideFace_geometryOk calibrate_def baseline100State_def tooFarState_def)
  have 2: "snd (faceBranch exactArith exactConfig baseline100State 640 480 wideFace) =
      [FaceDistanceChange TooFar, KeypointsDetected (Some wideKeypoints),
       CaptureAllowedChange False, FaceStatusChange False]"
    unfolding faceBranch_snd Let_def d k
    by (simp add: baseline100State_def)
  have "detect exactArith exactConfig baseline100State wideFrame =
      Inr (faceBranch exactArith exactConfig baseline100State 640 480 wideFace)"
    using len by (simp add: detect_face [OF wideFrame_facts] frame_size)
  with 1 2 show ?thesis by (simp add: prod_eq_iff)
qed

lemma partlyOutside_fraction:
  "fractionInsideSpec exactArith noBoxConfig partlyOutsideFrame (keypoints partlyOutsideFace) =
     0.96"
  by (simp add: fractionInsideSpec_def insideSpec_def cxSpec_def cySpec_def rxSpec_def
      rySpec_def partlyOutsideFace_def partlyOutsideFrame_def noBoxConfig_fields
      exactArith_fields power2_eq_square)

lemma partlyOutside_corners:
  "\<not> list_all (insideSpec exactArith noBoxConfig partlyOutsideFrame)
       (cornersSpec exactArith (keypoints partlyOutsideFace))"
  by (simp add: cornersSpec_def insideSpec_def cxSpec_def cySpec_def rxSpec_def rySpec_def
      partlyOutsideFace_def partlyOutsideFrame_def noBoxConfig_fields exactArith_fields
      power2_eq_square)

section \<open>The claims\<close>

subsection \<open>C1: when capture-allowed changes\<close>

text \<open>
  C1 says that capture-allowed turns false only on the frame on which \<open>badStreak\<close> reaches
  \<open>minFramesOut\<close>, no-face frames and frames with a distance status other than ok included.
  The code assigns \<open>captureAllowed = false\<close> outright on those two kinds of frame (lines 226
  and 262), whatever \<open>badStreak\<close> is. Under the default configuration (here in exact
  arithmetic, the frames being far from every threshold), six good frames
  allow capture, and the no-face frame that follows withdraws it with \<open>badStreak = 1\<close>,
  below \<open>minFramesOut = 3\<close>.
\<close>

theorem capture_forced_false_counterexample:
  "run exactArith exactConfig initialState
     [goodFrame, goodFrame, goodFrame, goodFrame, goodFrame, goodFrame] =
   Inr (allowedState,
        [FaceDistanceChange Ok, KeypointsDetected (Some goodKeypoints), FaceStatusChange True,
         KeypointsDetected (Some goodKeypoints), KeypointsDetected (Some goodKeypoints),
         KeypointsDetected (Some goodKeypoints), KeypointsDetected (Some goodKeypoints),
         KeypointsDetected (Some goodKeypoints), CaptureAllowedChange True]) \<and>
   detect exactArith exactConfig allowedState noFaceFrame =
   Inr (lostState,
        [FaceDistanceChange TooFar, KeypointsDetected None, CaptureAllowedChange False,
         FaceStatusChange False]) \<and>
   lastCaptureAllowed allowedState \<and> \<not> lastCaptureAllowed lostState \<and>
   badStreak lostState = 1 \<and> minFramesOut exactConfig = 3 \<and>
   int (badStreak lostState) \<noteq> minFramesOut exactConfig"
  using run_six_good detect_allowed_noFace
  by (simp add: allowedState_def lostState_def exactConfig_fields)

text \<open>
  C1, amended. Along every sequence of frames from the initial cells and for every
  configuration, a call of \<open>detect\<close> that changes capture-allowed is a processed frame, and
  \<^item> if it changes it to true, a face was seen, the distance status is ok and the updated
    \<open>goodStreak\<close> is at least \<open>minFramesIn\<close>, and equal to it when \<open>minFramesIn \<ge> 1\<close>;
  \<^item> if it changes it to false, either no face was seen, or the distance status is not ok,
    or the updated \<open>goodStreak\<close> is below \<open>minFramesIn\<close> and the updated \<open>badStreak\<close> is at
    least \<open>minFramesOut\<close>, and equal to it when \<open>minFramesOut \<ge> 1\<close>.
  On every other frame the value stays.
\<close>

theorem capture_transitions:
  assumes "run ar cfg initialState frs = Inr (st, evs0)"
    and "detect ar cfg st fr = Inr (st', evs)"
    and "lastCaptureAllowed st' \<noteq> lastCaptureAllowed st"
  shows "processed fr \<and>
         (if lastCaptureAllowed st' then
            predictions fr \<noteq> [] \<and> lastDistanceStatus st' = Some Ok \<and>
            minFramesIn cfg \<le> int (goodStreak st') \<and>
            (1 \<le> minFramesIn cfg \<longrightarrow> int (goodStreak st') = minFramesIn cfg)
          else
            predictions fr = [] \<or> lastDistanceStatus st' \<noteq> Some Ok \<or>
            (int (goodStreak st') < minFramesIn cfg \<and>
             minFramesOut cfg \<le> int (badStreak st') \<and>
             (1 \<le> minFramesOut cfg \<longrightarrow> int (badStreak st') = minFramesOut cfg)))"
proof -
  from assms(1) have inv: "hysteresisInv cfg st" by (rule hysteresisInv_run)
  from assms(2) show ?thesis
  proof (cases rule: detect_cases)
    case skipped
    with assms(3) show ?thesis by simp
  next
    case noFace
    then show ?thesis by (simp add: noFaceBranch_fst)
  next
    case (face fc rest)
    let ?gOk = "geometryOk ar cfg (canvasWidth ar fr) (canvasHeight ar fr) fc"
    let ?d = "distanceStatusOf ar cfg st (canvasWidth ar fr) (canvasHeight ar fr) fc"
    show ?thesis
    proof (cases "?d = Ok")
      case False
      with face show ?thesis by (simp add: faceBranch_fst Let_def)
    next
      case True
      show ?thesis
      proof (cases ?gOk)
        case gOk: True
        with True face assms(3) inv show ?thesis
          by (auto simp: faceBranch_fst Let_def hysteresisInv_def split: if_splits)
      next
        case gOk: False
        with True face assms(3) inv show ?thesis
          by (auto simp: faceBranch_fst Let_def hysteresisInv_def split: if_splits)
      qed
    qed
  qed
qed

text \<open>The sixth good frame under the default configuration: \<open>goodStreak\<close> becomes 6 and
  capture-allowed turns true.\<close>

theorem capture_transitions_witness:
  "run exactArith exactConfig initialState [goodFrame, goodFrame, goodFrame, goodFrame, goodFrame] =
   Inr (afterFive,
        [FaceDistanceChange Ok, KeypointsDetected (Some goodKeypoints), FaceStatusChange True,
         KeypointsDetected (Some goodKeypoints), KeypointsDetected (Some goodKeypoints),
         KeypointsDetected (Some goodKeypoints), KeypointsDetected (Some goodKeypoints)]) \<and>
   detect exactArith exactConfig afterFive goodFrame =
   Inr (allowedState, [KeypointsDetected (Some goodKeypoints), CaptureAllowedChange True]) \<and>
   lastCaptureAllowed allowedState \<noteq> lastCaptureAllowed afterFive \<and>
   processed goodFrame \<and> lastCaptureAllowed allowedState \<and> predictions goodFrame \<noteq> [] \<and>
   lastDistanceStatus allowedState = Some Ok \<and>
   int (goodStreak allowedState) = minFramesIn exactConfig"
proof -
  have c: "lastCaptureAllowed allowedState \<noteq> lastCaptureAllowed afterFive"
    by (simp add: allowedState_def afterFive_def)
  show ?thesis
    using capture_transitions [OF run_five_good detect_afterFive_good c]
      run_five_good detect_afterFive_good c
    by (simp add: allowedState_def exactConfig_fields)
qed

subsection \<open>C2: the two streaks exclude each other\<close>

text \<open>
  C2. Every processed frame either increments \<open>goodStreak\<close> and resets \<open>badStreak\<close> to
  zero, or increments \<open>badStreak\<close> and resets \<open>goodStreak\<close> to zero; so after any processed
  frame, from the initial cells or any others, at most one of the two is nonzero.
\<close>

theorem streak_exclusive:
  assumes "processed fr" and "detect ar cfg st fr = Inr (st', evs)"
  shows "((goodStreak st' = goodStreak st + 1 \<and> badStreak st' = 0) \<or>
          (badStreak st' = badStreak st + 1 \<and> goodStreak st' = 0)) \<and>
         (goodStreak st' = 0 \<or> badStreak st' = 0)"
  using assms(2)
proof (cases rule: detect_cases)
  case skipped
  with assms(1) show ?thesis by simp
next
  case noFace
  then show ?thesis by (simp add: noFaceBranch_fst)
next
  case (face fc rest)
  then show ?thesis by (simp add: faceBranch_fst Let_def)
qed

theorem streak_exclusive_witness:
  "processed goodFrame \<and>
   detect exactArith exactConfig initialState goodFrame =
   Inr (afterOne,
        [FaceDistanceChange Ok, KeypointsDetected (Some goodKeypoints), FaceStatusChange True]) \<and>
   goodStreak afterOne = goodStreak initialState + 1 \<and> badStreak afterOne = 0"
  using streak_exclusive [OF goodFrame_processed detect_initial_good]
    goodFrame_processed detect_initial_good
  by (simp add: afterOne_def initialState_def)

subsection \<open>C3: the baseline is set once\<close>

text \<open>
  C3. Along every sequence of frames from the initial cells, once \<open>baselineEyePx\<close> holds a
  value, a call of \<open>detect\<close> keeps that value, unless it is a no-face frame that brings
  \<open>lostStreak\<close> to 12, which clears it. A frame with a face, good geometry or not, never
  overwrites or clears it.
\<close>

theorem baseline_one_shot:
  assumes "run ar cfg initialState frs = Inr (st, evs0)"
    and "baselineEyePx st = Some b"
    and "detect ar cfg st fr = Inr (st', evs)"
  shows "(predictions fr \<noteq> [] \<longrightarrow> baselineEyePx st' = Some b) \<and>
         (baselineEyePx st' = Some b \<and> lostStreak st' < LOST_RESET_STREAK \<or>
          baselineEyePx st' = None \<and> processed fr \<and> predictions fr = [] \<and>
          lostStreak st' = lostStreak st + 1 \<and> lostStreak st' = 12)"
proof -
  from assms(1) have "calibrationInv st" by (rule calibrationInv_run)
  with assms(2) have lost: "lostStreak st < 12"
    by (simp add: calibrationInv_def LOST_RESET_STREAK_def)
  from assms(3) show ?thesis
  proof (cases rule: detect_cases)
    case skipped
    with assms(2) lost show ?thesis by (simp add: LOST_RESET_STREAK_def)
  next
    case noFace
    with assms(2) lost show ?thesis
      by (auto simp: noFaceBranch_fst LOST_RESET_STREAK_def)
  next
    case (face fc rest)
    with assms(2) lost show ?thesis
      by (simp add: faceBranch_fst Let_def calibrate_counters LOST_RESET_STREAK_def)
  qed
qed

text \<open>Eight good frames set the baseline to 40; a no-face frame then leaves it.\<close>

theorem baseline_one_shot_witness:
  "run exactArith exactConfig initialState
     [goodFrame, goodFrame, goodFrame, goodFrame, goodFrame, goodFrame, goodFrame, goodFrame] =
   Inr (calibratedState,
        [FaceDistanceChange Ok, KeypointsDetected (Some goodKeypoints), FaceStatusChange True,
         KeypointsDetected (Some goodKeypoints), KeypointsDetected (Some goodKeypoints),
         KeypointsDetected (Some goodKeypoints), KeypointsDetected (Some goodKeypoints),
         KeypointsDetected (Some goodKeypoints), CaptureAllowedChange True,
         KeypointsDetected (Some goodKeypoints), KeypointsDetected (Some goodKeypoints)]) \<and>
   baselineEyePx calibratedState = Some 40 \<and>
   detect exactArith exactConfig calibratedState noFaceFrame =
   Inr (lostCalibratedState,
        [FaceDistanceChange TooFar, KeypointsDetected None, CaptureAllowedChange False,
         FaceStatusChange False]) \<and>
   baselineEyePx lostCalibratedState = Some 40 \<and>
   lostStreak lostCalibratedState < LOST_RESET_STREAK"
proof -
  have b: "baselineEyePx calibratedState = Some 40" by (simp add: calibratedState_def)
  show ?thesis
    using baseline_one_shot [OF run_eight_good b detect_calibrated_noFace]
      run_eight_good b detect_calibrated_noFace
    by (simp add: lostCalibratedState_def)
qed

subsection \<open>C4: the hysteresis of capture-allowed\<close>

text \<open>
  C4. On a processed frame with a face whose distance status is ok, capture-allowed is
  true if the updated \<open>goodStreak\<close> is at least \<open>minFramesIn\<close>; otherwise false if the
  updated \<open>badStreak\<close> is at least \<open>minFramesOut\<close>; otherwise it keeps its value. (The tests
  are made in this order, as in lines 239 to 244.) From \<open>goodStreak = 5\<close> with
  \<open>minFramesIn = 6\<close>, one such frame with good geometry makes \<open>goodStreak = 6\<close> and
  capture-allowed true, and reports the change when it was false.
\<close>

theorem capture_hysteresis:
  assumes "processed fr" and "predictions fr \<noteq> []"
    and "detect ar cfg st fr = Inr (st', evs)"
    and "lastDistanceStatus st' = Some Ok"
  shows "lastCaptureAllowed st' =
           (if minFramesIn cfg \<le> int (goodStreak st') then True
            else if minFramesOut cfg \<le> int (badStreak st') then False
            else lastCaptureAllowed st) \<and>
         (goodStreak st = 5 \<and> minFramesIn cfg = 6 \<and> frameGeometryOk ar cfg fr \<longrightarrow>
            goodStreak st' = 6 \<and> lastCaptureAllowed st' \<and>
            (\<not> lastCaptureAllowed st \<longrightarrow> CaptureAllowedChange True \<in> set evs))"
  using assms(3)
proof (cases rule: detect_cases)
  case skipped
  with assms(1) show ?thesis by simp
next
  case noFace
  with assms(2) show ?thesis by simp
next
  case (face fc rest)
  with assms(4) show ?thesis
    by (simp add: faceBranch_fst faceBranch_snd Let_def frameGeometryOk_def)
qed

theorem capture_hysteresis_witness:
  "processed goodFrame \<and> predictions goodFrame \<noteq> [] \<and>
   detect exactArith exactConfig afterFive goodFrame =
   Inr (allowedState, [KeypointsDetected (Some goodKeypoints), CaptureAllowedChange True]) \<and>
   lastDistanceStatus allowedState = Some Ok \<and>
   goodStreak afterFive = 5 \<and> minFramesIn exactConfig = 6 \<and>
   frameGeometryOk exactArith exactConfig goodFrame \<and> \<not> lastCaptureAllowed afterFive \<and>
   goodStreak allowedState = 6 \<and> lastCaptureAllowed allowedState"
proof -
  have p: "predictions goodFrame \<noteq> []" by (simp add: goodFrame_def)
  have d: "lastDistanceStatus allowedState = Some Ok" by (simp add: allowedState_def)
  show ?thesis
    using capture_hysteresis [OF goodFrame_processed p detect_afterFive_good d]
      goodFrame_processed p detect_afterFive_good d goodFrame_geometryOk
    by (simp add: afterFive_def exactConfig_fields)
qed

subsection \<open>C5: the lost streak\<close>

text \<open>
  C5. On a processed frame \<open>lostStreak\<close> is incremented when no face is seen, reset to
  zero when a face with good geometry is seen, and left as it is when a face without good
  geometry is seen. On a frame where \<open>lostStreak\<close> reaches 12 (a no-face frame, then),
  \<open>baselineEyePx\<close> is cleared and \<open>calibratingStreak\<close> is reset to 0.
\<close>

theorem lostStreak_rule:
  assumes "processed fr" and "detect ar cfg st fr = Inr (st', evs)"
  shows "lostStreak st' =
           (if predictions fr = [] then lostStreak st + 1
            else if frameGeometryOk ar cfg fr then 0 else lostStreak st) \<and>
         (lostStreak st < LOST_RESET_STREAK \<and> LOST_RESET_STREAK \<le> lostStreak st' \<longrightarrow>
            predictions fr = [] \<and> lostStreak st' = 12 \<and>
            baselineEyePx st' = None \<and> calibratingStreak st' = 0) \<and>
         (predictions fr = [] \<and> LOST_RESET_STREAK \<le> lostStreak st' \<longrightarrow>
            baselineEyePx st' = None \<and> calibratingStreak st' = 0)"
  using assms(2)
proof (cases rule: detect_cases)
  case skipped
  with assms(1) show ?thesis by simp
next
  case noFace
  then show ?thesis by (simp add: noFaceBranch_fst LOST_RESET_STREAK_def)
next
  case (face fc rest)
  then show ?thesis
    by (simp add: faceBranch_fst Let_def calibrate_counters frameGeometryOk_def)
qed

text \<open>The twelfth no-face frame after a calibration.\<close>

theorem lostStreak_rule_witness:
  "processed noFaceFrame \<and> predictions noFaceFrame = [] \<and>
   detect exactArith exactConfig elevenLostState noFaceFrame = Inr (resetState, [KeypointsDetected None]) \<and>
   lostStreak elevenLostState = 11 \<and> baselineEyePx elevenLostState = Some 40 \<and>
   lostStreak resetState = 12 \<and> baselineEyePx resetState = None \<and>
   calibratingStreak resetState = 0"
proof -
  have p: "processed noFaceFrame" using noFaceFrame_processed by simp
  show ?thesis
    using lostStreak_rule [OF p detect_elevenLost_noFace] noFaceFrame_processed
      detect_elevenLost_noFace
    by (simp add: elevenLostState_def LOST_RESET_STREAK_def)
qed

subsection \<open>C6: the distance status\<close>

text \<open>
  C6. On a processed frame with a face, the distance status that is computed and stored
  is: with a baseline, too far when \<open>eyeDistance < baseline * 0.85\<close>, too close when
  \<open>eyeDistance > baseline * 1.2\<close>, else ok; without one, too far when
  \<open>relativeEyeDistance < minEyeRatio\<close>, too close when \<open>relativeEyeDistance > maxEyeRatio\<close>,
  else ok. The products and the comparisons are those of the code's numbers, whatever
  they compute; the eye distance is the distance between the landmarks 33 and 263 and the
  relative one is \<open>eyeDistance / max(2 * min(rx, ry), 1)\<close>. The baseline is the one in
  force when line 206 reads it, after the calibration of the same frame, which is also the
  one the frame leaves. A status other than ok makes capture-allowed false. So a frame
  whose eye distance is below 0.85 times a baseline already set, as 80 is for a baseline of
  100, is too far, and capture-allowed is false.
\<close>

theorem distance_classification:
  assumes "processed fr" and "predictions fr = fc # rest"
    and "detect ar cfg st fr = Inr (st', evs)"
  shows "lastDistanceStatus st' =
           Some (case baselineEyePx st' of
                   Some b \<Rightarrow>
                     if numLess ar (eyeDistanceSpec ar fc) (numMul ar b (numLit ar 0.85))
                     then TooFar
                     else if numLess ar (numMul ar b (numLit ar 1.2)) (eyeDistanceSpec ar fc)
                     then TooClose
                     else Ok
                 | None \<Rightarrow>
                     if numLess ar (relativeEyeDistanceSpec ar cfg fr fc) (minEyeRatio cfg)
                     then TooFar
                     else if numLess ar (maxEyeRatio cfg) (relativeEyeDistanceSpec ar cfg fr fc)
                     then TooClose
                     else Ok) \<and>
         (lastDistanceStatus st' \<noteq> Some Ok \<longrightarrow> \<not> lastCaptureAllowed st') \<and>
         (\<forall>b. baselineEyePx st = Some b \<and>
              numLess ar (eyeDistanceSpec ar fc) (numMul ar b (numLit ar 0.85)) \<longrightarrow>
              baselineEyePx st' = Some b \<and> lastDistanceStatus st' = Some TooFar \<and>
              \<not> lastCaptureAllowed st')"
  using assms(3)
proof (cases rule: detect_cases)
  case skipped
  with assms(1) show ?thesis by simp
next
  case noFace
  with assms(2) show ?thesis by simp
next
  case (face fc' rest')
  with assms(2) have fc: "fc' = fc" by simp
  let ?w = "canvasWidth ar fr" and ?h = "canvasHeight ar fr"
  let ?st1 = "calibrate st (geometryOk ar cfg ?w ?h fc) (eyeDistanceOf ar fc)"
  have base: "baselineEyePx st' = baselineEyePx ?st1"
    using face(4) fc by (simp add: faceBranch_fst Let_def)
  have d: "lastDistanceStatus st' = Some (distanceStatusOf ar cfg st ?w ?h fc)"
    using face(4) fc by (simp add: faceBranch_fst Let_def)
  have c: "distanceStatusOf ar cfg st ?w ?h fc \<noteq> Ok \<longrightarrow> \<not> lastCaptureAllowed st'"
    using face(4) fc by (simp add: faceBranch_fst Let_def)
  have 1: "lastDistanceStatus st' =
           Some (case baselineEyePx st' of
                   Some b \<Rightarrow>
                     if numLess ar (eyeDistanceSpec ar fc) (numMul ar b (numLit ar 0.85))
                     then TooFar
                     else if numLess ar (numMul ar b (numLit ar 1.2)) (eyeDistanceSpec ar fc)
                     then TooClose
                     else Ok
                 | None \<Rightarrow>
                     if numLess ar (relativeEyeDistanceSpec ar cfg fr fc) (minEyeRatio cfg)
                     then TooFar
                     else if numLess ar (maxEyeRatio cfg) (relativeEyeDistanceSpec ar cfg fr fc)
                     then TooClose
                     else Ok)"
    unfolding d base
    by (simp add: distanceStatusOf_def classifyDistance_def FAR_FACTOR_def CLOSE_FACTOR_def
        eyeDistanceOf_spec relativeEyeDistanceOf_spec split: option.split)
  have 2: "lastDistanceStatus st' \<noteq> Some Ok \<longrightarrow> \<not> lastCaptureAllowed st'"
    using c d by simp
  have "\<forall>b. baselineEyePx st = Some b \<and>
              numLess ar (eyeDistanceSpec ar fc) (numMul ar b (numLit ar 0.85)) \<longrightarrow>
              baselineEyePx st' = Some b \<and> lastDistanceStatus st' = Some TooFar"
    unfolding d base
    by (simp add: distanceStatusOf_def classifyDistance_def FAR_FACTOR_def calibrate_counters
        eyeDistanceOf_spec)
  with 2 have 3: "\<forall>b. baselineEyePx st = Some b \<and>
              numLess ar (eyeDistanceSpec ar fc) (numMul ar b (numLit ar 0.85)) \<longrightarrow>
              baselineEyePx st' = Some b \<and> lastDistanceStatus st' = Some TooFar \<and>
              \<not> lastCaptureAllowed st'"
    by auto
  from 1 2 3 show ?thesis by (intro conjI)
qed

text \<open>In exact arithmetic: a baseline of 100 and an eye distance of 80, below
  \<open>100 * 0.85 = 85\<close>, give too far; and the first good frame, with no baseline and a
  relative eye distance of \<open>40 / 297.6\<close> between the two ratios, gives ok.\<close>

theorem distance_classification_witness:
  "processed wideFrame \<and> predictions wideFrame = [wideFace] \<and>
   detect exactArith exactConfig baseline100State wideFrame =
   Inr (tooFarState,
        [FaceDistanceChange TooFar, KeypointsDetected (Some wideKeypoints),
         CaptureAllowedChange False, FaceStatusChange False]) \<and>
   baselineEyePx baseline100State = Some 100 \<and> eyeDistanceSpec exactArith wideFace = 80 \<and>
   numLess exactArith (eyeDistanceSpec exactArith wideFace)
     (numMul exactArith 100 (numLit exactArith 0.85)) \<and>
   lastDistanceStatus tooFarState = Some TooFar \<and> \<not> lastCaptureAllowed tooFarState \<and>
   processed goodFrame \<and> predictions goodFrame = [goodFace] \<and>
   detect exactArith exactConfig initialState goodFrame =
   Inr (afterOne,
        [FaceDistanceChange Ok, KeypointsDetected (Some goodKeypoints), FaceStatusChange True]) \<and>
   baselineEyePx afterOne = None \<and>
   relativeEyeDistanceSpec exactArith exactConfig goodFrame goodFace = 40 / 297.6 \<and>
   lastDistanceStatus afterOne = Some Ok"
proof -
  have b: "baselineEyePx baseline100State = Some 100" by (simp add: baseline100State_def)
  have e: "eyeDistanceSpec exactArith wideFace = 80"
    using wideFace_eyeDistance by (simp add: eyeDistanceOf_spec)
  have l: "numLess exactArith (eyeDistanceSpec exactArith wideFace)
     (numMul exactArith 100 (numLit exactArith 0.85))"
    unfolding e by (simp add: exactArith_fields)
  note far = distance_classification [OF wideFrame_facts detect_baseline100_wide,
      THEN conjunct2, THEN conjunct2, THEN spec, of 100]
  from far b l
  have f: "lastDistanceStatus tooFarState = Some TooFar \<and> \<not> lastCaptureAllowed tooFarState"
    by blast
  have n: "baselineEyePx afterOne = None" by (simp add: afterOne_def)
  have r: "relativeEyeDistanceSpec exactArith exactConfig goodFrame goodFace = 40 / 297.6"
    using goodFace_relative relativeEyeDistanceOf_spec [of exactArith exactConfig goodFrame goodFace]
    by (simp add: frame_size)
  note unset = distance_classification [OF goodFrame_processed goodFrame_fields(4)
      detect_initial_good, THEN conjunct1]
  from unset have o: "lastDistanceStatus afterOne = Some Ok"
    unfolding n r by (simp add: exactConfig_fields exactArith_fields)
  from wideFrame_facts detect_baseline100_wide b e l f goodFrame_processed
    goodFrame_fields(4) detect_initial_good n r o
  show ?thesis by blast
qed

subsection \<open>C7: calibration after eight good frames\<close>

text \<open>
  C7. From cells with no baseline and \<open>calibratingStreak = 0\<close>, after eight consecutive
  frames with good geometry, \<open>calibratingStreak\<close> is 8 and the baseline, still unset after
  the seventh, is set on the eighth to the eye distance of the eighth. (The distance
  status of the frames plays no part in lines 192 to 200, so none is assumed.)
\<close>

theorem calibration_after_eight:
  assumes "baselineEyePx st = None" and "calibratingStreak st = 0"
    and "length frs = 7"
    and "\<forall>fr \<in> set frs. frameGeometryOk ar cfg fr"
    and "frameGeometryOk ar cfg fr8"
    and "run ar cfg st frs = Inr (st7, evs7)"
    and "detect ar cfg st7 fr8 = Inr (st8, evs8)"
  shows "baselineEyePx st7 = None \<and> calibratingStreak st8 = 8 \<and>
         baselineEyePx st8 = Some (eyeDistanceOf ar (hd (predictions fr8)))"
proof -
  from assms(1-4,6) have st7: "baselineEyePx st7 = None \<and> calibratingStreak st7 = 7"
    using calibrating_run [of frs ar cfg st st7 evs7] by (simp add: CALIBRATE_MIN_STREAK_def)
  from assms(7) show ?thesis
  proof (cases rule: detect_cases)
    case skipped
    with assms(5) show ?thesis by (simp add: frameGeometryOk_def)
  next
    case noFace
    with assms(5) show ?thesis by (simp add: frameGeometryOk_def)
  next
    case (face fc rest)
    with assms(5) st7 show ?thesis
      by (simp add: frameGeometryOk_def faceBranch_fst Let_def calibrate_counters
          CALIBRATE_MIN_STREAK_def)
  qed
qed

theorem calibration_after_eight_witness:
  "baselineEyePx initialState = None \<and> calibratingStreak initialState = 0 \<and>
   length [goodFrame, goodFrame, goodFrame, goodFrame, goodFrame, goodFrame, goodFrame] = 7 \<and>
   frameGeometryOk exactArith exactConfig goodFrame \<and>
   run exactArith exactConfig initialState
     [goodFrame, goodFrame, goodFrame, goodFrame, goodFrame, goodFrame, goodFrame] =
   Inr (afterSeven,
        [FaceDistanceChange Ok, KeypointsDetected (Some goodKeypoints), FaceStatusChange True,
         KeypointsDetected (Some goodKeypoints), KeypointsDetected (Some goodKeypoints),
         KeypointsDetected (Some goodKeypoints), KeypointsDetected (Some goodKeypoints),
         KeypointsDetected (Some goodKeypoints), CaptureAllowedChange True,
         KeypointsDetected (Some goodKeypoints)]) \<and>
   detect exactArith exactConfig afterSeven goodFrame =
   Inr (calibratedState, [KeypointsDetected (Some goodKeypoints)]) \<and>
   baselineEyePx afterSeven = None \<and> calibratingStreak calibratedState = 8 \<and>
   baselineEyePx calibratedState = Some 40 \<and> eyeDistanceOf exactArith (hd (predictions goodFrame)) = 40"
proof -
  have b: "baselineEyePx initialState = None" and c: "calibratingStreak initialState = 0"
    by (simp_all add: initialState_def)
  have l: "length [goodFrame, goodFrame, goodFrame, goodFrame, goodFrame, goodFrame, goodFrame] = 7"
    by simp
  have g: "\<forall>fr \<in> set [goodFrame, goodFrame, goodFrame, goodFrame, goodFrame, goodFrame, goodFrame].
             frameGeometryOk exactArith exactConfig fr"
    using goodFrame_geometryOk by simp
  have e: "eyeDistanceOf exactArith (hd (predictions goodFrame)) = 40"
    using goodFace_eyeDistance by (simp add: goodFrame_def)
  show ?thesis
    using calibration_after_eight [OF b c l g goodFrame_geometryOk run_seven_good
        detect_afterSeven_good]
      b c goodFrame_geometryOk run_seven_good detect_afterSeven_good e
    by simp
qed

subsection \<open>C8: the geometry test\<close>

text \<open>
  C8. For every frame and every face, the condition \<open>boxOk && fracOk && confidenceOk\<close>
  that \<open>detect\<close> computes is the conjunction of: the bounding box being inside, which
  holds when \<open>boxInsideRequired\<close> is false and otherwise asks all four corners of the
  keypoints' bounding box to satisfy \<open>(x - cx)\<^sup>2 / rx\<^sup>2 + (y - cy)\<^sup>2 / ry\<^sup>2 \<le> 1\<close>; the count of
  keypoints inside divided by the keypoint count being at least \<open>percentInsideRequired\<close>;
  and the confidence being absent or above 0.95. The operations and comparisons are those
  of the code's numbers, whatever they compute. So with \<open>boxInsideRequired\<close> false, a
  fraction that is at least the required one (as 0.96 is for 0.95) and the confidence ok,
  the geometry is ok, and on a processed frame with that face \<open>detect\<close> takes it so.
\<close>

theorem geometryOk_spec:
  "(geometryOk ar cfg (canvasWidth ar fr) (canvasHeight ar fr) fc \<longleftrightarrow>
      (boxInsideRequired cfg \<longrightarrow>
         list_all (insideSpec ar cfg fr) (cornersSpec ar (keypoints fc))) \<and>
      numLessEq ar (percentInsideRequired cfg) (fractionInsideSpec ar cfg fr (keypoints fc)) \<and>
      (case faceInViewConfidence fc of
         None \<Rightarrow> True
       | Some c \<Rightarrow> numLess ar (numLit ar 0.95) c)) \<and>
   (\<not> boxInsideRequired cfg \<and>
    numLessEq ar (percentInsideRequired cfg) (fractionInsideSpec ar cfg fr (keypoints fc)) \<and>
    (case faceInViewConfidence fc of
       None \<Rightarrow> True
     | Some c \<Rightarrow> numLess ar (numLit ar 0.95) c) \<longrightarrow>
      geometryOk ar cfg (canvasWidth ar fr) (canvasHeight ar fr) fc) \<and>
   (processed fr \<and> predictions fr = fc # rest \<longrightarrow>
      frameGeometryOk ar cfg fr =
        geometryOk ar cfg (canvasWidth ar fr) (canvasHeight ar fr) fc)"
proof -
  have b: "boxOk ar cfg (canvasWidth ar fr) (canvasHeight ar fr) fc \<longleftrightarrow>
      (boxInsideRequired cfg \<longrightarrow>
         list_all (insideSpec ar cfg fr) (cornersSpec ar (keypoints fc)))"
    by (simp add: boxOk_def region_spec isBoundingBoxInsideEllipse_spec)
  have f: "fracOk ar cfg (canvasWidth ar fr) (canvasHeight ar fr) fc \<longleftrightarrow>
      numLessEq ar (percentInsideRequired cfg) (fractionInsideSpec ar cfg fr (keypoints fc))"
    by (simp add: fracOk_def region_spec fractionInsideEllipse_spec)
  have c: "confidenceOk ar fc \<longleftrightarrow>
      (case faceInViewConfidence fc of
         None \<Rightarrow> True
       | Some c \<Rightarrow> numLess ar (numLit ar 0.95) c)"
    by (simp add: confidenceOk_def)
  have g: "processed fr \<and> predictions fr = fc # rest \<longrightarrow>
      frameGeometryOk ar cfg fr =
        geometryOk ar cfg (canvasWidth ar fr) (canvasHeight ar fr) fc"
    by (simp add: frameGeometryOk_def)
  have m: "geometryOk ar cfg (canvasWidth ar fr) (canvasHeight ar fr) fc \<longleftrightarrow>
      (boxInsideRequired cfg \<longrightarrow>
         list_all (insideSpec ar cfg fr) (cornersSpec ar (keypoints fc))) \<and>
      numLessEq ar (percentInsideRequired cfg) (fractionInsideSpec ar cfg fr (keypoints fc)) \<and>
      (case faceInViewConfidence fc of
         None \<Rightarrow> True
       | Some c \<Rightarrow> numLess ar (numLit ar 0.95) c)"
    unfolding geometryOk_def b f c by (rule refl)
  from m g show ?thesis by blast
qed

text \<open>In exact arithmetic: 300 keypoints of which 288 are inside, a bounding box with a
  corner outside, a confidence of 0.99 and no bounding-box requirement.\<close>

theorem geometryOk_spec_witness:
  "\<not> boxInsideRequired noBoxConfig \<and> percentInsideRequired noBoxConfig = 0.95 \<and>
   fractionInsideSpec exactArith noBoxConfig partlyOutsideFrame (keypoints partlyOutsideFace) =
     0.96 \<and>
   \<not> list_all (insideSpec exactArith noBoxConfig partlyOutsideFrame)
       (cornersSpec exactArith (keypoints partlyOutsideFace)) \<and>
   faceInViewConfidence partlyOutsideFace = Some 0.99 \<and>
   processed partlyOutsideFrame \<and> predictions partlyOutsideFrame = [partlyOutsideFace] \<and>
   geometryOk exactArith noBoxConfig (canvasWidth exactArith partlyOutsideFrame)
     (canvasHeight exactArith partlyOutsideFrame) partlyOutsideFace \<and>
   frameGeometryOk exactArith noBoxConfig partlyOutsideFrame"
proof -
  have c: "faceInViewConfidence partlyOutsideFace = Some 0.99"
    by (simp add: partlyOutsideFace_def)
  have p: "processed partlyOutsideFrame"
    and q: "predictions partlyOutsideFrame = [partlyOutsideFace]"
    by (simp_all add: processed_def partlyOutsideFrame_def)
  note t = geometryOk_spec [of exactArith noBoxConfig partlyOutsideFrame partlyOutsideFace "[]"]
  have l: "numLessEq exactArith (percentInsideRequired noBoxConfig)
      (fractionInsideSpec exactArith noBoxConfig partlyOutsideFrame (keypoints partlyOutsideFace))"
    unfolding partlyOutside_fraction by (simp add: noBoxConfig_fields exactArith_fields)
  have k: "(case faceInViewConfidence partlyOutsideFace of
         None \<Rightarrow> True
       | Some c \<Rightarrow> numLess exactArith (numLit exactArith 0.95) c)"
    unfolding c by (simp add: exactArith_fields)
  from t noBoxConfig_fields(1) l k
  have g: "geometryOk exactArith noBoxConfig (canvasWidth exactArith partlyOutsideFrame)
     (canvasHeight exactArith partlyOutsideFrame) partlyOutsideFace"
    by blast
  from t p q g have "frameGeometryOk exactArith noBoxConfig partlyOutsideFrame" by blast
  with noBoxConfig_fields(1,2) partlyOutside_fraction partlyOutside_corners c p q g
  show ?thesis by blast
qed

subsection \<open>C9: callbacks fire on change, the keypoints callback always\<close>

text \<open>
  C9. On every processed frame the calls made are exactly: the distance-status callback if
  the stored status changed, the keypoints callback (with the face's keypoints, or with
  \<open>null\<close> when no face was seen), the capture-allowed callback if the stored value
  changed, and the face-good callback if the stored value changed, each with the new
  value. The values stored after the frame are the ones the frame computed: the distance
  status (too far when no face was seen), face-good (status ok and good geometry) and
  capture-allowed (false unless the status is ok, where the hysteresis decides). So a
  callback is called iff the newly computed value differs from the last one emitted; and
  of two consecutive processed frames with the same distance status, the second makes no
  distance-status call, and the two together make at most one.
\<close>

theorem callbacks_on_change:
  assumes "processed fr" and "detect ar cfg st fr = Inr (st', evs)"
    and "processed fr2" and "detect ar cfg st' fr2 = Inr (st'', evs2)"
  shows "evs = callsFor st st' fr \<and> evs2 = callsFor st' st'' fr2 \<and>
         lastDistanceStatus st' =
           Some (case predictions fr of
                   [] \<Rightarrow> TooFar
                 | fc # _ \<Rightarrow>
                     distanceStatusOf ar cfg st (canvasWidth ar fr) (canvasHeight ar fr) fc) \<and>
         lastGoodVisual st' = (lastDistanceStatus st' = Some Ok \<and> frameGeometryOk ar cfg fr) \<and>
         lastCaptureAllowed st' =
           (if lastDistanceStatus st' \<noteq> Some Ok then False
            else if minFramesIn cfg \<le> int (goodStreak st') then True
            else if minFramesOut cfg \<le> int (badStreak st') then False
            else lastCaptureAllowed st) \<and>
         (lastDistanceStatus st'' = lastDistanceStatus st' \<longrightarrow>
            distanceStatusValues evs2 = [] \<and>
            length (distanceStatusValues (evs @ evs2)) \<le> 1)"
proof -
  from assms(1,2) have 1: "evs = callsFor st st' fr"
    and d: "lastDistanceStatus st' =
           Some (case predictions fr of
                   [] \<Rightarrow> TooFar
                 | fc # _ \<Rightarrow>
                     distanceStatusOf ar cfg st (canvasWidth ar fr) (canvasHeight ar fr) fc)"
    using detect_events [of fr ar cfg st st' evs] by simp_all
  from assms(3,4) have 2: "evs2 = callsFor st' st'' fr2"
    using detect_events [of fr2 ar cfg st' st'' evs2] by simp
  from assms(2)
  have s: "lastGoodVisual st' = (lastDistanceStatus st' = Some Ok \<and> frameGeometryOk ar cfg fr) \<and>
         lastCaptureAllowed st' =
           (if lastDistanceStatus st' \<noteq> Some Ok then False
            else if minFramesIn cfg \<le> int (goodStreak st') then True
            else if minFramesOut cfg \<le> int (badStreak st') then False
            else lastCaptureAllowed st)"
  proof (cases rule: detect_cases)
    case skipped
    with assms(1) show ?thesis by simp
  next
    case noFace
    then show ?thesis by (simp add: noFaceBranch_fst)
  next
    case (face fc rest)
    then show ?thesis by (simp add: faceBranch_fst Let_def frameGeometryOk_def)
  qed
  have "lastDistanceStatus st'' = lastDistanceStatus st' \<longrightarrow>
          distanceStatusValues evs2 = [] \<and>
          length (distanceStatusValues (evs @ evs2)) \<le> 1"
    unfolding 1 2
    by (auto simp: callsFor_def distanceStatusValues_append split: option.splits)
  with 1 2 d s show ?thesis by blast
qed

text \<open>The first two good frames: the first reports the status and face-good, the second
  only forwards the keypoints.\<close>

theorem callbacks_on_change_witness:
  "processed goodFrame \<and>
   detect exactArith exactConfig initialState goodFrame =
   Inr (afterOne,
        [FaceDistanceChange Ok, KeypointsDetected (Some goodKeypoints), FaceStatusChange True]) \<and>
   detect exactArith exactConfig afterOne goodFrame =
   Inr (afterOne\<lparr> goodStreak := 2, calibratingStreak := 2 \<rparr>,
        [KeypointsDetected (Some goodKeypoints)]) \<and>
   callsFor initialState afterOne goodFrame =
     [FaceDistanceChange Ok, KeypointsDetected (Some goodKeypoints), FaceStatusChange True] \<and>
   callsFor afterOne (afterOne\<lparr> goodStreak := 2, calibratingStreak := 2 \<rparr>) goodFrame =
     [KeypointsDetected (Some goodKeypoints)]"
proof -
  note c = callbacks_on_change [OF goodFrame_processed detect_initial_good goodFrame_processed
      detect_afterOne_good]
  from c have
    "[FaceDistanceChange Ok, KeypointsDetected (Some goodKeypoints), FaceStatusChange True] =
       callsFor initialState afterOne goodFrame"
    and "[KeypointsDetected (Some goodKeypoints)] =
       callsFor afterOne (afterOne\<lparr> goodStreak := 2, calibratingStreak := 2 \<rparr>) goodFrame"
    by blast+
  with goodFrame_processed detect_initial_good detect_afterOne_good show ?thesis by simp
qed

subsection \<open>C10: the initial values of the last-emitted signals\<close>

text \<open>
  C10. Initially the last-emitted distance status is \<open>null\<close>, which is none of the three
  statuses, and the last-emitted face-good and capture-allowed values are false. So the
  first processed frame calls the distance-status callback with the status it computes,
  whatever that is; and along any sequence of frames the first face-good call, if there is
  one, carries true, and so does the first capture-allowed call: while a signal has not
  computed to true, it makes no call and its cell stays false.
\<close>

theorem initial_signals:
  "lastDistanceStatus initialState = None \<and>
   \<not> lastGoodVisual initialState \<and> \<not> lastCaptureAllowed initialState \<and>
   (processed fr \<and> detect ar cfg initialState fr = Inr (st1, evs1) \<longrightarrow>
      (case lastDistanceStatus st1 of
         None \<Rightarrow> False
       | Some d \<Rightarrow> FaceDistanceChange d \<in> set evs1)) \<and>
   (run ar cfg initialState frs = Inr (st, evs) \<longrightarrow>
      (case faceStatusValues evs of [] \<Rightarrow> \<not> lastGoodVisual st | v # _ \<Rightarrow> v) \<and>
      (case captureAllowedValues evs of [] \<Rightarrow> \<not> lastCaptureAllowed st | v # _ \<Rightarrow> v))"
proof -
  have a: "processed fr \<and> detect ar cfg initialState fr = Inr (st1, evs1) \<longrightarrow>
      (case lastDistanceStatus st1 of
         None \<Rightarrow> False
       | Some d \<Rightarrow> FaceDistanceChange d \<in> set evs1)"
  proof
    assume h: "processed fr \<and> detect ar cfg initialState fr = Inr (st1, evs1)"
    then have "evs1 = callsFor initialState st1 fr" and "lastDistanceStatus st1 \<noteq> None"
      using detect_events [of fr ar cfg initialState st1 evs1] by simp_all
    then show "case lastDistanceStatus st1 of
         None \<Rightarrow> False
       | Some d \<Rightarrow> FaceDistanceChange d \<in> set evs1"
      by (auto simp: callsFor_def initialState_def split: option.splits)
  qed
  have b: "run ar cfg initialState frs = Inr (st, evs) \<longrightarrow>
      (case faceStatusValues evs of [] \<Rightarrow> \<not> lastGoodVisual st | v # _ \<Rightarrow> v) \<and>
      (case captureAllowedValues evs of [] \<Rightarrow> \<not> lastCaptureAllowed st | v # _ \<Rightarrow> v)"
  proof
    assume "run ar cfg initialState frs = Inr (st, evs)"
    from run_values [OF this] show
      "(case faceStatusValues evs of [] \<Rightarrow> \<not> lastGoodVisual st | v # _ \<Rightarrow> v) \<and>
       (case captureAllowedValues evs of [] \<Rightarrow> \<not> lastCaptureAllowed st | v # _ \<Rightarrow> v)"
      by (simp add: initialState_def split: list.splits)
  qed
  from a b show ?thesis by (simp add: initialState_def)
qed

text \<open>The first good frame reports the status ok; over six good frames the only
  face-good value reported is true, and so is the only capture-allowed value.\<close>

theorem initial_signals_witness:
  "processed goodFrame \<and>
   detect exactArith exactConfig initialState goodFrame =
   Inr (afterOne,
        [FaceDistanceChange Ok, KeypointsDetected (Some goodKeypoints), FaceStatusChange True]) \<and>
   lastDistanceStatus afterOne = Some Ok \<and>
   run exactArith exactConfig initialState
     [goodFrame, goodFrame, goodFrame, goodFrame, goodFrame, goodFrame] =
   Inr (allowedState,
        [FaceDistanceChange Ok, KeypointsDetected (Some goodKeypoints), FaceStatusChange True,
         KeypointsDetected (Some goodKeypoints), KeypointsDetected (Some goodKeypoints),
         KeypointsDetected (Some goodKeypoints), KeypointsDetected (Some goodKeypoints),
         KeypointsDetected (Some goodKeypoints), CaptureAllowedChange True]) \<and>
   faceStatusValues
     [FaceDistanceChange Ok, KeypointsDetected (Some goodKeypoints), FaceStatusChange True,
      KeypointsDetected (Some goodKeypoints), KeypointsDetected (Some goodKeypoints),
      KeypointsDetected (Some goodKeypoints), KeypointsDetected (Some goodKeypoints),
      KeypointsDetected (Some goodKeypoints), CaptureAllowedChange True] = [True] \<and>
   captureAllowedValues
     [FaceDistanceChange Ok, KeypointsDetected (Some goodKeypoints), FaceStatusChange True,
      KeypointsDetected (Some goodKeypoints), KeypointsDetected (Some goodKeypoints),
      KeypointsDetected (Some goodKeypoints), KeypointsDetected (Some goodKeypoints),
      KeypointsDetected (Some goodKeypoints), CaptureAllowedChange True] = [True]"
  using initial_signals [of goodFrame exactArith exactConfig afterOne
      "[FaceDistanceChange Ok, KeypointsDetected (Some goodKeypoints), FaceStatusChange True]"
      "[goodFrame, goodFrame, goodFrame, goodFrame, goodFrame, goodFrame]" allowedState
      "[FaceDistanceChange Ok, KeypointsDetected (Some goodKeypoints), FaceStatusChange True,
        KeypointsDetected (Some goodKeypoints), KeypointsDetected (Some goodKeypoints),
        KeypointsDetected (Some goodKeypoints), KeypointsDetected (Some goodKeypoints),
        KeypointsDetected (Some goodKeypoints), CaptureAllowedChange True]"]
    goodFrame_processed detect_initial_good run_six_good
  by (simp add: afterOne_def)

end
